theory Spec2Isabelle
  imports Complex_Main "HOL-Library.Log_Nat"
begin

section \<open>Documents, values and the two collections\<close>

text \<open>
  The server keeps its state in MongoDB collections of JSON-like documents; the three
  that the agreement lifecycle and the occupancy statistics read or write are modelled. A document
  is a finite map from field names to values; a field that is absent reads as
  \<open>undefined\<close> in JavaScript, which is \<open>None\<close> here. Values are the scalar values a
  JSON body or a stored document carries in this program: null, booleans, numbers,
  strings, dates (a time stamp) and ObjectIds. Arrays and nested objects are not part
  of the model.
\<close>

datatype val = VNull | VBool bool | VNum int | VStr string | VDate nat | VOid "nat list"

type_synonym doc = "string \<rightharpoonup> val"

record db =
  apartmentsCollection :: "doc list"
  agreementsCollection :: "doc list"
  usersCollection :: "doc list"

text \<open>JavaScript truthiness of a value read from an object (\<open>!x\<close> is its negation).\<close>

fun truthy :: "val option \<Rightarrow> bool" where
  "truthy None = False"
| "truthy (Some VNull) = False"
| "truthy (Some (VBool b)) = b"
| "truthy (Some (VNum n)) = (n \<noteq> 0)"
| "truthy (Some (VStr s)) = (s \<noteq> [])"
| "truthy (Some (VDate t)) = True"
| "truthy (Some (VOid i)) = True"

text \<open>\<open>x || d\<close> on a value read from an object.\<close>

definition js_or :: "val option \<Rightarrow> val \<Rightarrow> val" where
  "js_or x d = (case x of None \<Rightarrow> d | Some v \<Rightarrow> if truthy (Some v) then v else d)"

text \<open>
  The driver serialises \<open>undefined\<close> in a query as null, and the query \<open>{k: null}\<close>
  matches the documents whose field \<open>k\<close> is null or missing; any other value matches
  the documents that store exactly that value.
\<close>

definition bson :: "val option \<Rightarrow> val" where
  "bson x = (case x of None \<Rightarrow> VNull | Some v \<Rightarrow> v)"

definition eq_match :: "doc \<Rightarrow> string \<Rightarrow> val option \<Rightarrow> bool" where
  "eq_match d k x = (bson (d k) = bson x)"

text \<open>\<open>{k: {$in: xs}}\<close>\<close>

definition in_match :: "doc \<Rightarrow> string \<Rightarrow> val option list \<Rightarrow> bool" where
  "in_match d k xs = list_ex (eq_match d k) xs"

text \<open>
  The collection operations the handlers call. A collection is the list of its
  documents in storage order; \<open>findOne\<close> returns the first match, \<open>find(...).toArray()\<close>
  all matches, \<open>updateOne\<close> applies \<open>$set\<close> to the first match and is a no-op when
  nothing matches.
\<close>

definition findOne :: "(doc \<Rightarrow> bool) \<Rightarrow> doc list \<Rightarrow> doc option" where
  "findOne q coll = List.find q coll"

definition find_toArray :: "(doc \<Rightarrow> bool) \<Rightarrow> doc list \<Rightarrow> doc list" where
  "find_toArray q coll = filter q coll"

fun updateOne :: "(doc \<Rightarrow> bool) \<Rightarrow> doc \<Rightarrow> doc list \<Rightarrow> doc list" where
  "updateOne q upd [] = []"
| "updateOne q upd (d # ds) =
     (if q d then (d ++ upd) # ds else d # updateOne q upd ds)"

text \<open>
  \<open>insertOne\<close>: the driver gives the document a generated ObjectId when its \<open>_id\<close> is
  null or undefined, the server refuses an \<open>_id\<close> that the collection already holds
  (the call throws), and otherwise the document is stored as it is. The result
  carries the id of the stored document.
\<close>

datatype store_error = DuplicateKey

definition insertOne :: "doc \<Rightarrow> nat list \<Rightarrow> doc list \<Rightarrow> store_error + (doc list \<times> val)" where
  "insertOne d generated coll =
     (let d' = (if bson (d ''_id'') = VNull then d(''_id'' \<mapsto> VOid generated) else d);
          i = bson (d' ''_id'')
      in if list_ex (\<lambda>x. bson (x ''_id'') = i) coll then Inl DuplicateKey
         else Inr (coll @ [d'], i))"

section \<open>Responses\<close>

datatype payload =
    Message string
  | InsertOneResult val
  | Stats nat val val

datatype response = Response (code: nat) (sent: payload)

section \<open>Numbers\<close>

text \<open>
  A JavaScript number is an IEEE 754 binary64 value. A finite double is represented here
  by the rational number it denotes, and \<open>fl\<close> rounds a rational to the nearest double,
  ties to the even significand: \<open>ilog2 x\<close> is the binary exponent of \<open>x\<close>, the unit in the last
  place is \<open>2\<close> to the power \<open>e - 52\<close> (with \<open>e\<close> at least \<open>-1022\<close>, which gives the
  subnormal numbers), and the significand is rounded by \<open>rne\<close>. Overflow to infinity (a
  magnitude of \<open>2\<close> to the \<open>1024\<close> or more) is not represented. The operators \<open>/\<close> and \<open>*\<close>
  round the exact result once.
\<close>

definition ilog2 :: "rat \<Rightarrow> int" where
  "ilog2 x = (if 1 \<le> x then bitlen \<lfloor>x\<rfloor> - 1 else - bitlen (\<lceil>1 / x\<rceil> - 1))"

definition rne :: "rat \<Rightarrow> int" where
  "rne y = (let f = \<lfloor>y\<rfloor>; r = y - of_int f in
            if r < 1 / 2 then f else if 1 / 2 < r then f + 1
            else if even f then f else f + 1)"

definition fl :: "rat \<Rightarrow> rat" where
  "fl x = (if x = 0 then 0
           else let a = \<bar>x\<bar>; e = max (ilog2 a) (- 1022); u = 2 powi (e - 52)
                in sgn x * of_int (rne (a / u)) * u)"

definition js_div :: "rat \<Rightarrow> rat \<Rightarrow> rat" where
  "js_div x y = fl (x / y)"

definition js_mul :: "rat \<Rightarrow> rat \<Rightarrow> rat" where
  "js_mul x y = fl (x * y)"

text \<open>
  \<open>x.toFixed(2)\<close> for a double \<open>x\<close> below \<open>1e21\<close>: the integer \<open>n\<close> for which \<open>n / 100 - x\<close> is
  as close to zero as possible, the larger one if there are two, written in decimal
  with a point before its last two digits.
\<close>

definition digit :: "nat \<Rightarrow> char" where
  "digit d = ''0123456789'' ! (d mod 10)"

fun decimal :: "nat \<Rightarrow> string" where
  "decimal n = (if n < 10 then [digit n] else decimal (n div 10) @ [digit (n mod 10)])"

declare decimal.simps [simp del]

definition hundredths :: "rat \<Rightarrow> nat" where
  "hundredths x = nat \<lfloor>x * 100 + 1 / 2\<rfloor>"

definition fixed2 :: "nat \<Rightarrow> string" where
  "fixed2 n = decimal (n div 100) @ ''.'' @ [digit (n mod 100 div 10), digit (n mod 10)]"

definition toFixed2 :: "rat \<Rightarrow> string" where
  "toFixed2 x = (if x < 0 then ''-'' @ fixed2 (hundredths (- x)) else fixed2 (hundredths x))"

section \<open>Custom middleware\<close>

text \<open>\<open>s.split(c)\<close> for a one-character separator, and \<open>xs[i]\<close> on an array.\<close>

fun js_split :: "char \<Rightarrow> string \<Rightarrow> string list" where
  "js_split c [] = [] # []"
| "js_split c (x # xs) =
     (if x = c then [] # js_split c xs
      else (case js_split c xs of [] \<Rightarrow> [x] # [] | w # ws \<Rightarrow> (x # w) # ws))"

fun js_index :: "'a list \<Rightarrow> nat \<Rightarrow> 'a option" where
  "js_index [] i = None"
| "js_index (x # xs) 0 = Some x"
| "js_index (x # xs) (Suc i) = js_index xs i"

text \<open>
  \<open>verifyFirebaseToken\<close>. The identity provider's \<open>verifyIdToken\<close> is a parameter: it
  returns the decoded token, or \<open>None\<close> where the call throws. The middleware either
  answers the request itself (\<open>Inl\<close>) or calls \<open>next()\<close> with \<open>req.decoded\<close> set (\<open>Inr\<close>).
\<close>

definition verifyFirebaseToken ::
  "(string \<Rightarrow> doc option) \<Rightarrow> string option \<Rightarrow> response + doc" where
  "verifyFirebaseToken verifyIdToken authHeader =
     (case authHeader of
        None \<Rightarrow> Inl (Response 401 (Message ''Unauthorized Access''))
      | Some h \<Rightarrow>
          if h = [] then Inl (Response 401 (Message ''Unauthorized Access''))
          else (case js_index (js_split CHR '' '' h) 1 of
                  None \<Rightarrow> Inl (Response 401 (Message ''Unauthorized Access''))
                | Some token \<Rightarrow>
                    if token = [] then Inl (Response 401 (Message ''Unauthorized Access''))
                    else (case verifyIdToken token of
                            None \<Rightarrow> Inl (Response 403 (Message ''Forbidden Access''))
                          | Some decoded \<Rightarrow> Inr decoded)))"

text \<open>
  The three role gates. Each looks the user up by \<open>req.decoded.email\<close> and answers 403
  unless a record is found whose role is strictly equal to the gate's string; \<open>None\<close>
  is \<open>next()\<close>.
\<close>

definition verifyUser :: "db \<Rightarrow> doc \<Rightarrow> response option" where
  "verifyUser s decoded =
     (let email = decoded ''email'' in
      case findOne (\<lambda>u. eq_match u ''email'' email) (usersCollection s) of
        None \<Rightarrow> Some (Response 403 (Message ''Only users can access this route''))
      | Some user \<Rightarrow>
          if user ''role'' \<noteq> Some (VStr ''user'')
          then Some (Response 403 (Message ''Only users can access this route''))
          else None)"

definition verifyMember :: "db \<Rightarrow> doc \<Rightarrow> response option" where
  "verifyMember s decoded =
     (let email = decoded ''email'' in
      case findOne (\<lambda>u. eq_match u ''email'' email) (usersCollection s) of
        None \<Rightarrow> Some (Response 403 (Message ''Only members can access this route''))
      | Some user \<Rightarrow>
          if user ''role'' \<noteq> Some (VStr ''member'')
          then Some (Response 403 (Message ''Only members can access this route''))
          else None)"

definition verifyAdmin :: "db \<Rightarrow> doc \<Rightarrow> response option" where
  "verifyAdmin s decoded =
     (let email = decoded ''email'' in
      case findOne (\<lambda>u. eq_match u ''email'' email) (usersCollection s) of
        None \<Rightarrow> Some (Response 403 (Message ''Forbidden Access''))
      | Some user \<Rightarrow>
          if user ''role'' \<noteq> Some (VStr ''admin'')
          then Some (Response 403 (Message ''Forbidden Access''))
          else None)"

section \<open>Apartments API\<close>

text \<open>
  \<open>GET /apartments/stats\<close>. \<open>ToString\<close> is the conversion a template literal applies to a
  field value; the keys of \<open>occupiedMap\<close> are kept as a list, and \<open>has\<close> is membership.
  \<open>total\<close>, \<open>unavailable\<close> and \<open>available\<close> are array lengths and their difference, exact
  as numbers; the quotient and the product are doubles.
\<close>

definition get_apartments_stats :: "(val option \<Rightarrow> string) \<Rightarrow> db \<Rightarrow> response" where
  "get_apartments_stats ToString s =
     (let apartments = find_toArray (\<lambda>ap. True) (apartmentsCollection s);
          agreements = find_toArray (\<lambda>a. eq_match a ''status'' (Some (VStr ''checked'')))
                         (agreementsCollection s);
          occupiedMap = map (\<lambda>a. ToString (a ''blockName'') @ ''-'' @ ToString (a ''apartmentNo''))
                          agreements;
          total = length apartments;
          unavailable =
            length (filter (\<lambda>ap. ToString (ap ''blockName'') @ ''-'' @ ToString (ap ''apartmentNo'')
                                   \<in> set occupiedMap) apartments);
          available = total - unavailable;
          availablePercentage =
            (if total \<noteq> 0
             then VStr (toFixed2 (js_mul (js_div (of_nat available) (of_nat total)) 100))
             else VNum 0);
          unavailablePercentage =
            (if total \<noteq> 0
             then VStr (toFixed2 (js_mul (js_div (of_nat unavailable) (of_nat total)) 100))
             else VNum 0)
      in Response 200 (Stats total availablePercentage unavailablePercentage))"

section \<open>Agreements API\<close>

text \<open>
  \<open>POST /agreements\<close>, the handler behind \<open>verifyFirebaseToken\<close> and \<open>verifyUser\<close>.
  \<open>req_body\<close> is \<open>req.body\<close>: the parsed JSON object, or \<open>None\<close> for \<open>undefined\<close>, which is
  what the handler sees when the request carries no body. \<open>generated\<close> is the ObjectId
  the driver would generate for the insert. The handler returns the new state and the
  response; the \<open>catch\<close> branch is reached when reading \<open>agreementData.email\<close> throws
  (no body) and when \<open>insertOne\<close> throws. The reads of the store are taken to succeed.
\<close>

definition post_agreements :: "db \<Rightarrow> doc option \<Rightarrow> nat list \<Rightarrow> db \<times> response" where
  "post_agreements s req_body generated =
     (case req_body of
        None \<Rightarrow> (s, Response 500 (Message ''Failed to create agreement''))
      | Some agreementData \<Rightarrow>
          (case findOne (\<lambda>a. eq_match a ''email'' (agreementData ''email'') \<and>
                              in_match a ''status'' [Some (VStr ''pending''), Some (VStr ''checked'')])
                  (agreementsCollection s) of
             Some existingAgreement \<Rightarrow>
               (s, Response 400
                     (Message ''User already has an existing agreement (pending or approved).''))
           | None \<Rightarrow>
               (let checkedAgreements =
                      find_toArray (\<lambda>a. eq_match a ''blockName'' (agreementData ''blockName'') \<and>
                                         eq_match a ''apartmentNo'' (agreementData ''apartmentNo'') \<and>
                                         eq_match a ''status'' (Some (VStr ''checked'')))
                        (agreementsCollection s);
                    emails = map (\<lambda>ag. ag ''email'') checkedAgreements;
                    memberUser =
                      (if length checkedAgreements > 0
                       then findOne (\<lambda>u. in_match u ''email'' emails \<and>
                                          eq_match u ''role'' (Some (VStr ''member'')))
                              (usersCollection s)
                       else None)
                in if memberUser \<noteq> None
                   then (s, Response 400
                              (Message ''This apartment is already assigned to a member.''))
                   else (case insertOne agreementData generated (agreementsCollection s) of
                           Inl e \<Rightarrow> (s, Response 500 (Message ''Failed to create agreement''))
                         | Inr (coll, insertedId) \<Rightarrow>
                             (s\<lparr>agreementsCollection := coll\<rparr>,
                              Response 200 (InsertOneResult insertedId))))))"

text \<open>
  \<open>PATCH /agreements/:id\<close>, the handler behind \<open>verifyFirebaseToken\<close> and
  \<open>verifyAdmin\<close>. \<open>params_id\<close> is \<open>req.params.id\<close> and \<open>ObjectId\<close> the driver's parser of an id
  string: \<open>None\<close> where \<open>ObjectId.isValid(id)\<close> is false, the value of
  \<open>new ObjectId(id)\<close> otherwise. \<open>req_body\<close> is \<open>req.body\<close> as above: destructuring it
  throws when it is \<open>undefined\<close>, after the id has been checked, and the \<open>catch\<close> branch
  answers 500. \<open>now\<close> is the value of \<open>new Date()\<close>.
\<close>

definition patch_agreements ::
  "(string \<Rightarrow> nat list option) \<Rightarrow> db \<Rightarrow> string \<Rightarrow> doc option \<Rightarrow> nat \<Rightarrow> db \<times> response" where
  "patch_agreements ObjectId s params_id req_body now =
     (case ObjectId params_id of
        None \<Rightarrow> (s, Response 400 (Message ''Invalid agreement ID''))
      | Some oid \<Rightarrow>
          (case req_body of
             None \<Rightarrow> (s, Response 500 (Message ''Internal Server Error''))
           | Some body \<Rightarrow>
               (let status = body ''status'';
                    role = body ''role'';
                    filter = (\<lambda>a. eq_match a ''_id'' (Some (VOid oid)));
                    updateFields = [''status'' \<mapsto> js_or status (VStr ''checked'')];
                    updateFields = (if role = Some (VStr ''member'')
                                    then updateFields(''acceptedDate'' \<mapsto> VDate now)
                                    else updateFields);
                    agreements = updateOne filter updateFields (agreementsCollection s);
                    users =
                      (if role = Some (VStr ''member'')
                       then (case findOne filter agreements of
                               None \<Rightarrow> usersCollection s
                             | Some agreement \<Rightarrow>
                                 (let userEmail = agreement ''email'' in
                                  if truthy userEmail
                                  then updateOne (\<lambda>u. eq_match u ''email'' userEmail)
                                         [''role'' \<mapsto> VStr ''member''] (usersCollection s)
                                  else usersCollection s))
                       else usersCollection s)
                in (s\<lparr>agreementsCollection := agreements, usersCollection := users\<rparr>,
                    Response 200 (Message ''Agreement updated successfully'')))))"

text \<open>
  An ObjectId parser for concrete runs: 24 hexadecimal digits, read as their values
  (so that upper and lower case denote the same id).
\<close>

definition hexval :: "char \<Rightarrow> nat option" where
  "hexval c =
     (let n = (of_char c :: nat) in
      if 48 \<le> n \<and> n \<le> 57 then Some (n - 48)
      else if 97 \<le> n \<and> n \<le> 102 then Some (n - 87)
      else if 65 \<le> n \<and> n \<le> 70 then Some (n - 55)
      else None)"

definition hexObjectId :: "string \<Rightarrow> nat list option" where
  "hexObjectId s =
     (if length s = 24 \<and> list_all (\<lambda>c. hexval c \<noteq> None) s
      then Some (map (\<lambda>c. the (hexval c)) s) else None)"

section \<open>Routes\<close>

text \<open>
  The two routes as Express runs them: the middleware in order, then the handler. A
  middleware that answers the request ends it with the state as it was.
\<close>

definition post_agreements_route ::
  "(string \<Rightarrow> doc option) \<Rightarrow> db \<Rightarrow> string option \<Rightarrow> doc option \<Rightarrow> nat list \<Rightarrow>
     db \<times> response" where
  "post_agreements_route verifyIdToken s authHeader req_body generated =
     (case verifyFirebaseToken verifyIdToken authHeader of
        Inl r \<Rightarrow> (s, r)
      | Inr decoded \<Rightarrow>
          (case verifyUser s decoded of
             Some r \<Rightarrow> (s, r)
           | None \<Rightarrow> post_agreements s req_body generated))"

definition patch_agreements_route ::
  "(string \<Rightarrow> doc option) \<Rightarrow> (string \<Rightarrow> nat list option) \<Rightarrow> db \<Rightarrow> string option \<Rightarrow>
     string \<Rightarrow> doc option \<Rightarrow> nat \<Rightarrow> db \<times> response" where
  "patch_agreements_route verifyIdToken ObjectId s authHeader params_id req_body now =
     (case verifyFirebaseToken verifyIdToken authHeader of
        Inl r \<Rightarrow> (s, r)
      | Inr decoded \<Rightarrow>
          (case verifyAdmin s decoded of
             Some r \<Rightarrow> (s, r)
           | None \<Rightarrow> patch_agreements ObjectId s params_id req_body now))"

section \<open>Sample data\<close>

text \<open>
  A small building: two tenants and an administrator, and requests against it. The
  concrete runs below are evaluated on these.
\<close>

definition oid_1 :: "nat list" where
  "oid_1 = [0,0,0,0,0,0,0,0,0,0,0,0,0,0,0,0,0,0,0,0,0,0,0,1]"

definition oid_2 :: "nat list" where
  "oid_2 = [0,0,0,0,0,0,0,0,0,0,0,0,0,0,0,0,0,0,0,0,0,0,0,2]"

definition agreement_a :: doc where
  "agreement_a = [''_id'' \<mapsto> VOid oid_1, ''email'' \<mapsto> VStr ''a@x.io'',
                  ''blockName'' \<mapsto> VStr ''Block-1'', ''apartmentNo'' \<mapsto> VStr ''Apt-101'',
                  ''status'' \<mapsto> VStr ''pending'']"

definition agreement_b :: doc where
  "agreement_b = [''_id'' \<mapsto> VOid oid_2, ''email'' \<mapsto> VStr ''b@x.io'',
                  ''blockName'' \<mapsto> VStr ''Block-2'', ''apartmentNo'' \<mapsto> VStr ''Apt-202'',
                  ''status'' \<mapsto> VStr ''pending'']"

definition user_a :: doc where
  "user_a = [''email'' \<mapsto> VStr ''a@x.io'', ''role'' \<mapsto> VStr ''user'']"

definition user_b :: doc where
  "user_b = [''email'' \<mapsto> VStr ''b@x.io'', ''role'' \<mapsto> VStr ''user'']"

definition user_root :: doc where
  "user_root = [''email'' \<mapsto> VStr ''root@x.io'', ''role'' \<mapsto> VStr ''admin'']"

definition db_pending :: db where
  "db_pending = \<lparr>apartmentsCollection = [], agreementsCollection = [agreement_a],
                  usersCollection = [user_a, user_b, user_root]\<rparr>"

definition db_occupied :: db where
  "db_occupied = \<lparr>apartmentsCollection = [], agreementsCollection = [agreement_a(''status'' \<mapsto> VStr ''checked''), agreement_b],
                   usersCollection = [user_a(''role'' \<mapsto> VStr ''member''), user_b, user_root]\<rparr>"

definition db_drifted :: db where
  "db_drifted = \<lparr>apartmentsCollection = [], agreementsCollection = [agreement_a(''status'' \<mapsto> VStr ''checked'')],
                  usersCollection = [user_a, user_b, user_root]\<rparr>"

definition body_b_101 :: doc where
  "body_b_101 = [''email'' \<mapsto> VStr ''b@x.io'', ''blockName'' \<mapsto> VStr ''Block-1'',
                 ''apartmentNo'' \<mapsto> VStr ''Apt-101'', ''status'' \<mapsto> VStr ''pending'']"

definition body_b_self_approved :: doc where
  "body_b_self_approved = [''email'' \<mapsto> VStr ''b@x.io'', ''blockName'' \<mapsto> VStr ''Block-2'',
                 ''apartmentNo'' \<mapsto> VStr ''Apt-202'', ''status'' \<mapsto> VStr ''checked'']"

definition body_reject_member :: doc where
  "body_reject_member = [''status'' \<mapsto> VStr ''rejected'', ''role'' \<mapsto> VStr ''member'']"

definition body_reject :: doc where
  "body_reject = [''status'' \<mapsto> VStr ''rejected'']"

definition body_blank_status :: doc where
  "body_blank_status = [''status'' \<mapsto> VStr '''']"

definition idp_ex :: "string \<Rightarrow> doc option" where
  "idp_ex t = (if t = ''tok-root'' then Some [''email'' \<mapsto> VStr ''root@x.io''] else None)"

definition body_c_101 :: doc where
  "body_c_101 = [''email'' \<mapsto> VStr ''c@x.io'', ''blockName'' \<mapsto> VStr ''Block-1'',
                 ''apartmentNo'' \<mapsto> VStr ''Apt-101'']"

definition decoded_root :: doc where
  "decoded_root = [''email'' \<mapsto> VStr ''root@x.io'']"

text \<open>
  A building of 160 apartments: the 23 of block A are let (each has a checked
  agreement), the 137 of block B are free. \<open>to_string\<close> is the template-literal
  conversion on the values that occur in these keys (strings and whole numbers, and
  null, undefined and booleans); dates and ids do not occur in them.
\<close>

definition to_string :: "val option \<Rightarrow> string" where
  "to_string x =
     (case x of
        None \<Rightarrow> ''undefined''
      | Some VNull \<Rightarrow> ''null''
      | Some (VBool b) \<Rightarrow> (if b then ''true'' else ''false'')
      | Some (VNum n) \<Rightarrow> (if n < 0 then ''-'' @ decimal (nat (- n)) else decimal (nat n))
      | Some (VStr t) \<Rightarrow> t
      | Some (VDate t) \<Rightarrow> []
      | Some (VOid i) \<Rightarrow> [])"

definition apartment :: "string \<Rightarrow> nat \<Rightarrow> doc" where
  "apartment b i = [''blockName'' \<mapsto> VStr b, ''apartmentNo'' \<mapsto> VNum (int i)]"

definition tenancy :: "string \<Rightarrow> nat \<Rightarrow> doc" where
  "tenancy b i = [''blockName'' \<mapsto> VStr b, ''apartmentNo'' \<mapsto> VNum (int i),
                  ''status'' \<mapsto> VStr ''checked'']"

definition db_stats :: db where
  "db_stats = \<lparr>apartmentsCollection = map (apartment ''A'') [0..<23] @ map (apartment ''B'') [0..<137],
                agreementsCollection = map (tenancy ''A'') [0..<23],
                usersCollection = []\<rparr>"

section \<open>Collection operations\<close>

lemma updateOne_length: "length (updateOne q upd ds) = length ds"
  by (induction ds) auto

lemma updateOne_no_match: "findOne q ds = None \<Longrightarrow> updateOne q upd ds = ds"
  by (induction ds) (auto simp: findOne_def split: if_splits)

lemma updateOne_nth:
  "i < length ds \<Longrightarrow> updateOne q upd ds ! i = ds ! i \<or> updateOne q upd ds ! i = ds ! i ++ upd"
proof (induction ds arbitrary: i)
  case Nil
  then show ?case by simp
next
  case (Cons d ds)
  then show ?case by (cases i) auto
qed

lemma findOne_updateOne:
  "findOne q ds = Some a \<Longrightarrow> q (a ++ upd) \<Longrightarrow> findOne q (updateOne q upd ds) = Some (a ++ upd)"
  by (induction ds) (auto simp: findOne_def split: if_splits)

lemma eq_match_oid: "eq_match a k (Some (VOid oid)) \<longleftrightarrow> a k = Some (VOid oid)"
  by (cases "a k") (auto simp: eq_match_def bson_def)

lemma eq_match_str: "eq_match a k (Some (VStr x)) \<longleftrightarrow> a k = Some (VStr x)"
  by (cases "a k") (auto simp: eq_match_def bson_def)

lemma by_id_eq: "(\<lambda>a. eq_match a ''_id'' (Some (VOid oid))) = (\<lambda>a. a ''_id'' = Some (VOid oid))"
  by (rule ext) (rule eq_match_oid)

lemma hex1: "hexObjectId ''000000000000000000000001'' = Some oid_1"
  by (simp add: hexObjectId_def hexval_def oid_1_def)

lemma hex2: "hexObjectId ''000000000000000000000002'' = Some oid_2"
  by (simp add: hexObjectId_def hexval_def oid_2_def)

lemma find_a: "findOne (\<lambda>a. a ''_id'' = Some (VOid oid_1)) (agreementsCollection db_pending) =
    Some agreement_a"
  by (simp add: findOne_def db_pending_def agreement_a_def)


section \<open>The access guard\<close>

text \<open>
  The second component of \<open>h.split(" ")\<close> is the text between the first and the second
  space of \<open>h\<close>; there is none when \<open>h\<close> has no space.
\<close>

lemma js_split_shape:
  "js_split c h = takeWhile (\<lambda>x. x \<noteq> c) h #
     (case dropWhile (\<lambda>x. x \<noteq> c) h of [] \<Rightarrow> [] | y # r \<Rightarrow> js_split c r)"
  by (induction h) (auto split: list.splits)

lemma js_split_second:
  "js_index (js_split c h) (Suc 0) =
     (case dropWhile (\<lambda>x. x \<noteq> c) h of [] \<Rightarrow> None | y # r \<Rightarrow> Some (takeWhile (\<lambda>x. x \<noteq> c) r))"
proof (cases "dropWhile (\<lambda>x. x \<noteq> c) h")
  case Nil
  have "js_split c h = [takeWhile (\<lambda>x. x \<noteq> c) h]"
    using js_split_shape [of c h] by (simp only: Nil list.case)
  then show ?thesis by (simp add: Nil)
next
  case (Cons y r)
  have "js_split c h = takeWhile (\<lambda>x. x \<noteq> c) h # js_split c r"
    using js_split_shape [of c h] by (simp only: Cons list.case)
  moreover obtain ws where "js_split c r = takeWhile (\<lambda>x. x \<noteq> c) r # ws"
    using js_split_shape [of c r] by blast
  ultimately show ?thesis by (simp add: Cons)
qed

lemma js_split_token:
  "(case js_index (js_split c h) (Suc 0) of None \<Rightarrow> [] | Some t \<Rightarrow> t) =
     takeWhile (\<lambda>x. x \<noteq> c) (tl (dropWhile (\<lambda>x. x \<noteq> c) h))"
proof (cases "dropWhile (\<lambda>x. x \<noteq> c) h")
  case Nil
  show ?thesis unfolding js_split_second Nil by simp
next
  case (Cons y r)
  show ?thesis unfolding js_split_second Cons by simp
qed

lemma verifyFirebaseToken_eval:
  "verifyFirebaseToken idp hdr =
     (let token = (case hdr of None \<Rightarrow> []
                   | Some h \<Rightarrow> takeWhile (\<lambda>x. x \<noteq> CHR '' '')
                                 (tl (dropWhile (\<lambda>x. x \<noteq> CHR '' '') h)))
      in if token = [] then Inl (Response 401 (Message ''Unauthorized Access''))
         else (case idp token of
                 None \<Rightarrow> Inl (Response 403 (Message ''Forbidden Access''))
               | Some decoded \<Rightarrow> Inr decoded))"
proof (cases hdr)
  case None
  then show ?thesis by (simp add: verifyFirebaseToken_def)
next
  case (Some h)
  have empty: "takeWhile (\<lambda>x. x \<noteq> CHR '' '') (tl (dropWhile (\<lambda>x. x \<noteq> CHR '' '') h)) = []"
    if "h = []"
    using that by simp
  show ?thesis
    using js_split_token [of "CHR '' ''" h, symmetric] empty
    by (cases "js_index (js_split CHR '' '' h) (Suc 0)")
       (auto simp add: Some verifyFirebaseToken_def Let_def)
qed

text \<open>
  C6. Write \<open>token\<close> for the text between the first and the second space of the
  authorization header (empty when the header is missing or has no space). When
  \<open>token\<close> is empty the verifier answers 401 Unauthorized Access; when it is not empty
  and the identity provider rejects it, the verifier answers 403 Forbidden Access; when
  the provider accepts it, the request goes on with the decoded token. So 401 is
  answered exactly when there is no token and 403 exactly when a token is present and
  rejected.
\<close>

theorem verifyFirebaseToken_401_403:
  "(let token = (case hdr of None \<Rightarrow> []
                 | Some h \<Rightarrow> takeWhile (\<lambda>x. x \<noteq> CHR '' '')
                               (tl (dropWhile (\<lambda>x. x \<noteq> CHR '' '') h)))
    in (token = [] \<longrightarrow>
          verifyFirebaseToken idp hdr = Inl (Response 401 (Message ''Unauthorized Access''))) \<and>
       (token \<noteq> [] \<and> idp token = None \<longrightarrow>
          verifyFirebaseToken idp hdr = Inl (Response 403 (Message ''Forbidden Access''))) \<and>
       (\<forall>decoded. token \<noteq> [] \<and> idp token = Some decoded \<longrightarrow>
          verifyFirebaseToken idp hdr = Inr decoded) \<and>
       (verifyFirebaseToken idp hdr = Inl (Response 401 (Message ''Unauthorized Access''))
          \<longleftrightarrow> token = []) \<and>
       (verifyFirebaseToken idp hdr = Inl (Response 403 (Message ''Forbidden Access''))
          \<longleftrightarrow> token \<noteq> [] \<and> idp token = None))"
  unfolding verifyFirebaseToken_eval [of idp hdr] Let_def
  by (auto split: option.splits)

theorem verifyFirebaseToken_401_403_witness:
  "verifyFirebaseToken idp_ex None = Inl (Response 401 (Message ''Unauthorized Access'')) \<and>
   verifyFirebaseToken idp_ex (Some ''Bearer'') = Inl (Response 401 (Message ''Unauthorized Access'')) \<and>
   verifyFirebaseToken idp_ex (Some ''Bearer  tok-root'') =
     Inl (Response 401 (Message ''Unauthorized Access'')) \<and>
   verifyFirebaseToken idp_ex (Some ''Bearer expired'') =
     Inl (Response 403 (Message ''Forbidden Access'')) \<and>
   verifyFirebaseToken idp_ex (Some ''Bearer tok-root'') = Inr decoded_root"
  using verifyFirebaseToken_401_403 [of None idp_ex]
        verifyFirebaseToken_401_403 [of "Some ''Bearer''" idp_ex]
        verifyFirebaseToken_401_403 [of "Some ''Bearer  tok-root''" idp_ex]
        verifyFirebaseToken_401_403 [of "Some ''Bearer expired''" idp_ex]
        verifyFirebaseToken_401_403 [of "Some ''Bearer tok-root''" idp_ex]
  by (simp add: Let_def idp_ex_def decoded_root_def)

text \<open>
  C5. Each of the gates \<open>verifyUser\<close>, \<open>verifyMember\<close> and \<open>verifyAdmin\<close> lets the request
  through if and only if the user collection holds a record for the principal's email
  and the role of that record is exactly the gate's own string; otherwise it answers
  403. The roles are not ordered: a principal whose record has role \<open>admin\<close> is answered
  403 by the \<open>member\<close> gate and by the \<open>user\<close> gate.
\<close>

theorem role_gates_exact:
  "(verifyUser s decoded = None \<longleftrightarrow>
      (\<exists>u. findOne (\<lambda>u. eq_match u ''email'' (decoded ''email'')) (usersCollection s) = Some u \<and>
           u ''role'' = Some (VStr ''user''))) \<and>
   (verifyMember s decoded = None \<longleftrightarrow>
      (\<exists>u. findOne (\<lambda>u. eq_match u ''email'' (decoded ''email'')) (usersCollection s) = Some u \<and>
           u ''role'' = Some (VStr ''member''))) \<and>
   (verifyAdmin s decoded = None \<longleftrightarrow>
      (\<exists>u. findOne (\<lambda>u. eq_match u ''email'' (decoded ''email'')) (usersCollection s) = Some u \<and>
           u ''role'' = Some (VStr ''admin''))) \<and>
   verifyUser s decoded \<in>
     {None, Some (Response 403 (Message ''Only users can access this route''))} \<and>
   verifyMember s decoded \<in>
     {None, Some (Response 403 (Message ''Only members can access this route''))} \<and>
   verifyAdmin s decoded \<in> {None, Some (Response 403 (Message ''Forbidden Access''))} \<and>
   ((\<exists>u. findOne (\<lambda>u. eq_match u ''email'' (decoded ''email'')) (usersCollection s) = Some u \<and>
          u ''role'' = Some (VStr ''admin'')) \<longrightarrow>
      verifyMember s decoded = Some (Response 403 (Message ''Only members can access this route'')) \<and>
      verifyUser s decoded = Some (Response 403 (Message ''Only users can access this route'')))"
  by (auto simp: verifyUser_def verifyMember_def verifyAdmin_def Let_def split: option.splits)

theorem role_gates_exact_witness:
  "verifyAdmin db_pending decoded_root = None \<and>
   verifyMember db_pending decoded_root =
     Some (Response 403 (Message ''Only members can access this route'')) \<and>
   verifyUser db_pending decoded_root =
     Some (Response 403 (Message ''Only users can access this route''))"
proof -
  have "findOne (\<lambda>u. eq_match u ''email'' (decoded_root ''email'')) (usersCollection db_pending) =
          Some user_root"
    by (simp add: findOne_def db_pending_def decoded_root_def user_a_def user_b_def user_root_def
          eq_match_def bson_def)
  moreover have "user_root ''role'' = Some (VStr ''admin'')"
    by (simp add: user_root_def)
  ultimately have "\<exists>u. findOne (\<lambda>u. eq_match u ''email'' (decoded_root ''email''))
                     (usersCollection db_pending) = Some u \<and> u ''role'' = Some (VStr ''admin'')"
    by blast
  then show ?thesis
    using role_gates_exact [of db_pending decoded_root] by blast
qed

text \<open>
  A request that passes both middleware of a route is answered by the handler.
\<close>

lemma post_agreements_route_admitted:
  "verifyFirebaseToken verifyIdToken authHeader = Inr decoded \<Longrightarrow> verifyUser s decoded = None \<Longrightarrow>
   post_agreements_route verifyIdToken s authHeader req_body generated =
     post_agreements s req_body generated"
  by (simp add: post_agreements_route_def)

lemma patch_agreements_route_admitted:
  "verifyFirebaseToken verifyIdToken authHeader = Inr decoded \<Longrightarrow> verifyAdmin s decoded = None \<Longrightarrow>
   patch_agreements_route verifyIdToken ObjectId s authHeader params_id req_body now =
     patch_agreements ObjectId s params_id req_body now"
  by (simp add: patch_agreements_route_def)

section \<open>Occupancy statistics\<close>

text \<open>
  The binary exponent brackets its argument, so \<open>fl\<close> keeps 53 significant bits, and
  rounding moves a non-negative number by at most half a unit in the last place.
\<close>

lemma ilog2_le:
  assumes "0 < x"
  shows "2 powi (ilog2 x) \<le> x"
proof (cases "1 \<le> x")
  case True
  let ?m = "\<lfloor>x\<rfloor>"
  from True have m: "0 < ?m" by simp
  then have b: "1 \<le> bitlen ?m"
    using bitlen_eq_zero_iff [of ?m] bitlen_nonneg [of ?m] by linarith
  from bitlen_bounds [OF m] have "2 ^ nat (bitlen ?m - 1) \<le> ?m" ..
  then have "(of_int (2 ^ nat (bitlen ?m - 1)) :: rat) \<le> of_int ?m"
    by (simp only: of_int_le_iff)
  also have "\<dots> \<le> x" by (rule of_int_floor_le)
  finally have "(2::rat) ^ nat (bitlen ?m - 1) \<le> x" by simp
  with b True show ?thesis
    by (simp add: ilog2_def power_int_nonneg_exp)
next
  case False
  let ?c = "\<lceil>1 / x\<rceil>"
  from False assms have y: "1 < 1 / x" by simp
  then have c: "0 < ?c - 1" by simp
  from bitlen_bounds [OF c] have "?c - 1 < 2 ^ nat (bitlen (?c - 1))" ..
  then have "?c \<le> 2 ^ nat (bitlen (?c - 1))" by linarith
  then have "(of_int ?c :: rat) \<le> of_int (2 ^ nat (bitlen (?c - 1)))"
    by (simp only: of_int_le_iff)
  with le_of_int_ceiling [of "1 / x"]
  have "1 / x \<le> of_int (2 ^ nat (bitlen (?c - 1)))" by (rule order_trans)
  then have "1 / x \<le> 2 ^ nat (bitlen (?c - 1))" by simp
  with assms have "1 / 2 ^ nat (bitlen (?c - 1)) \<le> x"
    by (simp add: field_simps)
  moreover have "2 powi (- bitlen (?c - 1)) = (1 / 2 ^ nat (bitlen (?c - 1)) :: rat)"
    using bitlen_nonneg [of "?c - 1"]
    by (simp add: power_int_minus_divide power_int_nonneg_exp)
  ultimately show ?thesis using False by (simp add: ilog2_def)
qed

lemma ilog2_less:
  assumes "0 < x"
  shows "x < 2 powi (ilog2 x + 1)"
proof (cases "1 \<le> x")
  case True
  let ?m = "\<lfloor>x\<rfloor>"
  from True have m: "0 < ?m" by simp
  from bitlen_bounds [OF m] have "?m < 2 ^ nat (bitlen ?m)" ..
  then have "?m + 1 \<le> 2 ^ nat (bitlen ?m)" by linarith
  then have "(of_int (?m + 1) :: rat) \<le> of_int (2 ^ nat (bitlen ?m))"
    by (simp only: of_int_le_iff)
  moreover have "x < of_int (?m + 1)" by linarith
  ultimately have "x < of_int (2 ^ nat (bitlen ?m))" by linarith
  then have "x < 2 ^ nat (bitlen ?m)" by simp
  with True show ?thesis
    using bitlen_nonneg [of ?m] by (simp add: ilog2_def power_int_nonneg_exp)
next
  case False
  let ?c = "\<lceil>1 / x\<rceil>"
  let ?b = "bitlen (?c - 1)"
  from False assms have y: "1 < 1 / x" by simp
  then have c: "0 < ?c - 1" by simp
  then have b: "1 \<le> ?b"
    using bitlen_eq_zero_iff [of "?c - 1"] bitlen_nonneg [of "?c - 1"] by linarith
  from bitlen_bounds [OF c] have "2 ^ nat (?b - 1) \<le> ?c - 1" ..
  then have "(of_int (2 ^ nat (?b - 1)) :: rat) \<le> of_int (?c - 1)"
    by (simp only: of_int_le_iff)
  moreover have "of_int (?c - 1) < 1 / x" by linarith
  ultimately have "of_int (2 ^ nat (?b - 1)) < 1 / x" by (rule le_less_trans)
  then have "2 ^ nat (?b - 1) < 1 / x" by simp
  with assms have "x < 1 / 2 ^ nat (?b - 1)"
    by (simp add: field_simps)
  moreover have "2 powi (- ?b + 1) = (1 / 2 ^ nat (?b - 1) :: rat)"
  proof -
    have "- ?b + 1 = - (?b - 1)" by simp
    then show ?thesis
      using b by (simp only: power_int_minus_divide) (simp add: power_int_nonneg_exp)
  qed
  ultimately show ?thesis using False by (simp add: ilog2_def)
qed

lemma rne_error: "\<bar>of_int (rne y) - y\<bar> \<le> 1 / 2"
proof -
  have "of_int \<lfloor>y\<rfloor> \<le> y" "y < of_int \<lfloor>y\<rfloor> + 1" by linarith+
  then show ?thesis by (auto simp: rne_def Let_def)
qed

lemma rne_nonneg: "0 \<le> y \<Longrightarrow> 0 \<le> rne y"
  by (auto simp: rne_def Let_def)

lemma fl_pos:
  "0 < x \<Longrightarrow> fl x = of_int (rne (x / 2 powi (max (ilog2 x) (- 1022) - 52))) *
                      2 powi (max (ilog2 x) (- 1022) - 52)"
  by (simp add: fl_def Let_def)

lemma fl_nonneg: "0 \<le> x \<Longrightarrow> 0 \<le> fl x"
proof (cases "x = 0")
  case True
  then show ?thesis by (simp add: fl_def)
next
  case False
  assume "0 \<le> x"
  with False have x: "0 < x" by simp
  have "0 \<le> rne (x / 2 powi (max (ilog2 x) (- 1022) - 52))"
    using x by (intro rne_nonneg) simp
  then show ?thesis by (simp add: fl_pos [OF x])
qed

lemma fl_error:
  assumes "0 \<le> x"
  shows "\<bar>fl x - x\<bar> \<le> x / 2 ^ 53 + 1 / 2 ^ 1075"
proof (cases "x = 0")
  case True
  then show ?thesis by (simp add: fl_def)
next
  case False
  with assms have x: "0 < x" by simp
  define e where "e = max (ilog2 x) (- 1022)"
  define u :: rat where "u = 2 powi (e - 52)"
  have u: "0 < u" by (simp add: u_def)
  have "fl x - x = (of_int (rne (x / u)) - x / u) * u"
    using u by (simp add: fl_pos [OF x] u_def e_def algebra_simps)
  then have "\<bar>fl x - x\<bar> = \<bar>of_int (rne (x / u)) - x / u\<bar> * u"
    using u by (simp add: abs_mult)
  also have "\<dots> \<le> 1 / 2 * u"
    using u rne_error [of "x / u"] by (intro mult_right_mono) simp_all
  finally have half: "\<bar>fl x - x\<bar> \<le> u / 2" by simp
  have "u / 2 \<le> x / 2 ^ 53 + 1 / 2 ^ 1075"
  proof (cases "- 1022 \<le> ilog2 x")
    case True
    then have "e = ilog2 x" by (simp add: e_def)
    then have "u = 2 powi (ilog2 x) / 2 ^ 52"
      by (simp add: u_def power_int_diff)
    also have "\<dots> \<le> x / 2 ^ 52"
      using ilog2_le [OF x] by (simp add: divide_right_mono)
    finally have "u / 2 \<le> x / 2 ^ 53" by simp
    then show ?thesis by simp
  next
    case False
    then have "e = - 1022" by (simp add: e_def)
    then have "u = 1 / 2 ^ 1074" by (simp add: u_def)
    then have "u / 2 = 1 / 2 ^ 1075" by simp
    with x show ?thesis by simp
  qed
  with half show ?thesis by linarith
qed

lemma fl_error_weak:
  assumes "0 \<le> x"
  shows "\<bar>fl x - x\<bar> \<le> x / 2 ^ 53 + 1 / 2 ^ 60"
proof -
  have "(1 :: rat) / 2 ^ 1075 \<le> 1 / 2 ^ 60" by simp
  with fl_error [OF assms] show ?thesis by linarith
qed

lemma hundredths_error:
  assumes "0 \<le> x"
  shows "\<bar>of_nat (hundredths x) - x * 100\<bar> \<le> (1 / 2 :: rat)"
proof -
  have "0 \<le> \<lfloor>x * 100 + 1 / 2\<rfloor>" using assms by simp
  then have "(of_nat (hundredths x) :: rat) = of_int \<lfloor>x * 100 + 1 / 2\<rfloor>"
    by (simp add: hundredths_def)
  moreover have "of_int \<lfloor>x * 100 + 1 / 2\<rfloor> \<le> x * 100 + 1 / 2"
    "x * 100 + 1 / 2 < of_int \<lfloor>x * 100 + 1 / 2\<rfloor> + 1"
    by linarith+
  ultimately show ?thesis by linarith
qed

lemma percentage_error:
  assumes "k \<le> t" "0 < t"
  shows "\<bar>of_nat (hundredths (js_mul (js_div (of_nat k) (of_nat t)) 100)) / 100 -
          100 * of_nat k / of_nat t\<bar> \<le> (1 / 200 + 1 / 2 ^ 45 :: rat)"
proof -
  define q :: rat where "q = of_nat k / of_nat t"
  define a where "a = fl q"
  define b where "b = fl (a * 100)"
  from assms have q: "0 \<le> q" "q \<le> 1" by (simp_all add: q_def)
  have a0: "0 \<le> a" unfolding a_def using q(1) by (rule fl_nonneg)
  have ea: "\<bar>a - q\<bar> \<le> q / 2 ^ 53 + 1 / 2 ^ 60"
    unfolding a_def using q(1) by (rule fl_error_weak)
  have p0: "0 \<le> a * 100" using a0 by simp
  have eb: "\<bar>b - a * 100\<bar> \<le> a * 100 / 2 ^ 53 + 1 / 2 ^ 60"
    unfolding b_def using p0 by (rule fl_error_weak)
  have b0: "0 \<le> b" unfolding b_def using p0 by (rule fl_nonneg)
  have en: "\<bar>of_nat (hundredths b) - b * 100\<bar> \<le> (1 / 2 :: rat)"
    using b0 by (rule hundredths_error)
  have c53: "(2 :: rat) ^ 53 = 9007199254740992" by simp
  have c60: "(2 :: rat) ^ 60 = 1152921504606846976" by simp
  have c45: "(2 :: rat) ^ 45 = 35184372088832" by simp
  from ea have ea': "a - q \<le> q / 9007199254740992 + 1 / 1152921504606846976"
      "q - a \<le> q / 9007199254740992 + 1 / 1152921504606846976"
    unfolding c53 c60 abs_le_iff by simp_all
  from eb have eb': "b - a * 100 \<le> a * 100 / 9007199254740992 + 1 / 1152921504606846976"
      "a * 100 - b \<le> a * 100 / 9007199254740992 + 1 / 1152921504606846976"
    unfolding c53 c60 abs_le_iff by simp_all
  from en have en': "of_nat (hundredths b) - b * 100 \<le> (1 / 2 :: rat)"
      "b * 100 - of_nat (hundredths b) \<le> (1 / 2 :: rat)"
    unfolding abs_le_iff by simp_all
  have "\<bar>of_nat (hundredths b) / 100 - 100 * q\<bar> \<le> (1 / 200 + 1 / 35184372088832 :: rat)"
    unfolding abs_le_iff using ea' eb' en' q by (intro conjI) linarith+
  then show ?thesis
    by (simp add: c45 q_def a_def b_def js_mul_def js_div_def)
qed

text \<open>
  Evaluating the arithmetic on numerals: the exponent and the rounded significand are
  computed first, then \<open>fl\<close>.
\<close>

lemma floor_numeral_div: "\<lfloor>numeral a / numeral b :: rat\<rfloor> = numeral a div numeral b"
  using floor_divide_of_int_eq [of "numeral a" "numeral b", where ?'a = rat] by simp

lemma ceiling_numeral_div: "\<lceil>numeral a / numeral b :: rat\<rceil> = - ((- numeral a) div numeral b)"
  using floor_divide_of_int_eq [of "- numeral a" "numeral b", where ?'a = rat]
  by (simp add: ceiling_def)

lemma fl_eval:
  assumes "0 < x" and "ilog2 x = e" and "- 1022 \<le> e" and "rne (x / 2 powi (e - 52)) = m"
  shows "fl x = of_int m * 2 powi (e - 52)"
  using assms by (simp add: fl_pos max_def)

lemma js_div_23_160: "js_div 23 160 = 2589569785738035 / 18014398509481984"
proof -
  have 1: "ilog2 (23 / 160) = - 3"
    by (simp add: ilog2_def compute_bitlen floor_numeral_div ceiling_numeral_div)
  have 2: "rne (23 / 160 / 2 powi (- 3 - 52)) = 5179139571476070"
    by (simp add: rne_def Let_def floor_numeral_div)
  have "fl (23 / 160) = of_int 5179139571476070 * 2 powi (- 3 - 52)"
    by (rule fl_eval [OF _ 1 _ 2]) simp_all
  then show ?thesis by (simp add: js_div_def)
qed

lemma js_mul_23_160: "js_mul (2589569785738035 / 18014398509481984) 100 =
    8092405580431359 / 562949953421312"
proof -
  have 1: "ilog2 (2589569785738035 / 18014398509481984 * 100) = 3"
    by (simp add: ilog2_def compute_bitlen floor_numeral_div ceiling_numeral_div)
  have 2: "rne (2589569785738035 / 18014398509481984 * 100 / 2 powi (3 - 52)) = 8092405580431359"
    by (simp add: rne_def Let_def floor_numeral_div)
  have "fl (2589569785738035 / 18014398509481984 * 100) = of_int 8092405580431359 * 2 powi (3 - 52)"
    by (rule fl_eval [OF _ 1 _ 2]) simp_all
  then show ?thesis by (simp add: js_mul_def)
qed

lemma toFixed2_23_160: "toFixed2 (js_mul (js_div 23 160) 100) = ''14.37''"
  by (simp add: js_div_23_160 js_mul_23_160 toFixed2_def hundredths_def fixed2_def
        decimal.simps digit_def floor_numeral_div)

lemma toFixed2_exact: "toFixed2 (23 / 160 * 100) = ''14.38''"
  by (simp add: toFixed2_def hundredths_def fixed2_def decimal.simps digit_def floor_numeral_div)

lemma js_div_137_160: "js_div 137 160 = 3856207180935987 / 4503599627370496"
proof -
  have 1: "ilog2 (137 / 160) = - 1"
    by (simp add: ilog2_def compute_bitlen floor_numeral_div ceiling_numeral_div)
  have 2: "rne (137 / 160 / 2 powi (- 1 - 52)) = 7712414361871974"
    by (simp add: rne_def Let_def floor_numeral_div)
  have "fl (137 / 160) = of_int 7712414361871974 * 2 powi (- 1 - 52)"
    by (rule fl_eval [OF _ 1 _ 2]) simp_all
  then show ?thesis by (simp add: js_div_def)
qed

lemma js_mul_137_160: "js_mul (3856207180935987 / 4503599627370496) 100 = 685 / 8"
proof -
  have 1: "ilog2 (3856207180935987 / 4503599627370496 * 100) = 6"
    by (simp add: ilog2_def compute_bitlen floor_numeral_div ceiling_numeral_div)
  have 2: "rne (3856207180935987 / 4503599627370496 * 100 / 2 powi (6 - 52)) = 6025323720212480"
    by (simp add: rne_def Let_def floor_numeral_div)
  have "fl (3856207180935987 / 4503599627370496 * 100) = of_int 6025323720212480 * 2 powi (6 - 52)"
    by (rule fl_eval [OF _ 1 _ 2]) simp_all
  then show ?thesis by (simp add: js_mul_def)
qed

lemma toFixed2_137_160: "toFixed2 (js_mul (js_div 137 160) 100) = ''85.63''"
  by (simp add: js_div_137_160 js_mul_137_160 toFixed2_def hundredths_def fixed2_def
        decimal.simps digit_def floor_numeral_div)

text \<open>
  The handler's answer in terms of the two collections, and the counts of the sample
  building.
\<close>

lemma get_apartments_stats_counts:
  "get_apartments_stats ToString s =
     Response 200
       (Stats (length (apartmentsCollection s))
          (if apartmentsCollection s \<noteq> []
           then VStr (toFixed2 (js_mul (js_div
                  (of_nat (length (apartmentsCollection s) -
                     length (filter (\<lambda>ap. ToString (ap ''blockName'') @ ''-'' @ ToString (ap ''apartmentNo'')
                        \<in> set (map (\<lambda>a. ToString (a ''blockName'') @ ''-'' @ ToString (a ''apartmentNo''))
                              (filter (\<lambda>a. a ''status'' = Some (VStr ''checked''))
                                 (agreementsCollection s))))
                        (apartmentsCollection s))))
                  (of_nat (length (apartmentsCollection s)))) 100))
           else VNum 0)
          (if apartmentsCollection s \<noteq> []
           then VStr (toFixed2 (js_mul (js_div
                  (of_nat (length (filter (\<lambda>ap. ToString (ap ''blockName'') @ ''-'' @ ToString (ap ''apartmentNo'')
                        \<in> set (map (\<lambda>a. ToString (a ''blockName'') @ ''-'' @ ToString (a ''apartmentNo''))
                              (filter (\<lambda>a. a ''status'' = Some (VStr ''checked''))
                                 (agreementsCollection s))))
                        (apartmentsCollection s))))
                  (of_nat (length (apartmentsCollection s)))) 100))
           else VNum 0))"
  by (simp add: get_apartments_stats_def find_toArray_def Let_def eq_match_str)

lemma toFixed2_nonneg: "0 \<le> x \<Longrightarrow> toFixed2 x = fixed2 (hundredths x)"
  by (simp add: toFixed2_def)

lemma percentage_fixed2:
  assumes "k \<le> t" "0 < t"
  shows "\<exists>n. toFixed2 (js_mul (js_div (of_nat k) (of_nat t)) 100) = fixed2 n \<and>
             \<bar>of_nat n / 100 - 100 * of_nat k / of_nat t\<bar> \<le> (1 / 200 + 1 / 2 ^ 45 :: rat)"
proof -
  have "0 \<le> js_div (of_nat k) (of_nat t)"
    unfolding js_div_def by (rule fl_nonneg) simp
  then have "0 \<le> js_mul (js_div (of_nat k) (of_nat t)) 100"
    unfolding js_mul_def by (intro fl_nonneg) simp
  then have "toFixed2 (js_mul (js_div (of_nat k) (of_nat t)) 100) =
             fixed2 (hundredths (js_mul (js_div (of_nat k) (of_nat t)) 100))"
    by (rule toFixed2_nonneg)
  with percentage_error [OF assms] show ?thesis by blast
qed

lemma db_stats_total: "length (apartmentsCollection db_stats) = 160"
  by (simp add: db_stats_def)

lemma db_stats_unavailable:
  "length (filter (\<lambda>ap. to_string (ap ''blockName'') @ ''-'' @ to_string (ap ''apartmentNo'')
                     \<in> set (map (\<lambda>a. to_string (a ''blockName'') @ ''-'' @ to_string (a ''apartmentNo''))
                              (filter (\<lambda>a. a ''status'' = Some (VStr ''checked''))
                                 (agreementsCollection db_stats))))
              (apartmentsCollection db_stats)) = 23"
proof -
  have checked: "filter (\<lambda>a. a ''status'' = Some (VStr ''checked'')) (agreementsCollection db_stats) =
      map (tenancy ''A'') [0..<23]"
    by (simp add: db_stats_def filter_map o_def tenancy_def)
  have occ: "set (map (\<lambda>a. to_string (a ''blockName'') @ ''-'' @ to_string (a ''apartmentNo''))
                (map (tenancy ''A'') [0..<23])) = (\<lambda>i. ''A-'' @ decimal i) ` {0..<23}"
    by (simp add: tenancy_def to_string_def o_def image_def)
  have a: "filter (\<lambda>i. to_string (apartment ''A'' i ''blockName'') @ ''-'' @
                       to_string (apartment ''A'' i ''apartmentNo'')
                     \<in> (\<lambda>i. ''A-'' @ decimal i) ` {0..<23}) [0..<23] = [0..<23]"
    by (rule filter_True) (auto simp: apartment_def to_string_def)
  have b: "filter (\<lambda>i. to_string (apartment ''B'' i ''blockName'') @ ''-'' @
                       to_string (apartment ''B'' i ''apartmentNo'')
                     \<in> (\<lambda>i. ''A-'' @ decimal i) ` {0..<23}) [0..<137] = []"
    by (rule filter_False) (auto simp: apartment_def to_string_def)
  have "length (filter (\<lambda>ap. to_string (ap ''blockName'') @ ''-'' @ to_string (ap ''apartmentNo'')
                     \<in> (\<lambda>i. ''A-'' @ decimal i) ` {0..<23})
              (apartmentsCollection db_stats)) =
        length (filter (\<lambda>i. to_string (apartment ''A'' i ''blockName'') @ ''-'' @
                       to_string (apartment ''A'' i ''apartmentNo'')
                     \<in> (\<lambda>i. ''A-'' @ decimal i) ` {0..<23}) [0..<23]) +
        length (filter (\<lambda>i. to_string (apartment ''B'' i ''blockName'') @ ''-'' @
                       to_string (apartment ''B'' i ''apartmentNo'')
                     \<in> (\<lambda>i. ''A-'' @ decimal i) ` {0..<23}) [0..<137])"
    by (simp only: db_stats_def db.simps filter_append length_append filter_map length_map o_def)
  also have "\<dots> = 23" unfolding a b by simp
  finally show ?thesis unfolding checked occ .
qed

text \<open>
  C8, as the code has it. With no apartments both percentages are reported as the
  number 0 and no division is evaluated. With \<open>total > 0\<close> each percentage is the string
  that \<open>toFixed(2)\<close> gives for the double \<open>(count / total) * 100\<close>: a numeral with two
  decimals whose value \<open>n / 100\<close> lies within \<open>0.005 + 2^-45\<close> of the exact percentage
  \<open>100 * count / total\<close>. It is a nearest two-decimal numeral up to that margin; it need
  not be the exact percentage rounded half up.
\<close>

theorem get_apartments_stats_percentages:
  "(let total = length (apartmentsCollection s);
        occupied = set (map (\<lambda>a. ToString (a ''blockName'') @ ''-'' @ ToString (a ''apartmentNo''))
                         (filter (\<lambda>a. a ''status'' = Some (VStr ''checked''))
                            (agreementsCollection s)));
        unavailable = length (filter (\<lambda>ap. ToString (ap ''blockName'') @ ''-'' @
                                           ToString (ap ''apartmentNo'') \<in> occupied)
                                (apartmentsCollection s));
        available = total - unavailable
    in (total = 0 \<longrightarrow>
          get_apartments_stats ToString s = Response 200 (Stats 0 (VNum 0) (VNum 0))) \<and>
       (0 < total \<longrightarrow>
          (\<exists>n m. get_apartments_stats ToString s =
                   Response 200 (Stats total (VStr (fixed2 n)) (VStr (fixed2 m))) \<and>
                 \<bar>of_nat n / 100 - 100 * of_nat available / of_nat total\<bar>
                   \<le> (1 / 200 + 1 / 2 ^ 45 :: rat) \<and>
                 \<bar>of_nat m / 100 - 100 * of_nat unavailable / of_nat total\<bar>
                   \<le> (1 / 200 + 1 / 2 ^ 45 :: rat))))"
proof -
  define total where "total = length (apartmentsCollection s)"
  define unavailable where "unavailable =
    length (filter (\<lambda>ap. ToString (ap ''blockName'') @ ''-'' @ ToString (ap ''apartmentNo'')
                     \<in> set (map (\<lambda>a. ToString (a ''blockName'') @ ''-'' @ ToString (a ''apartmentNo''))
                              (filter (\<lambda>a. a ''status'' = Some (VStr ''checked''))
                                 (agreementsCollection s))))
              (apartmentsCollection s))"
  have le: "unavailable \<le> total"
    unfolding unavailable_def total_def by (rule length_filter_le)
  have zero: "get_apartments_stats ToString s = Response 200 (Stats 0 (VNum 0) (VNum 0))"
    if "total = 0"
    using that by (simp add: get_apartments_stats_counts total_def)
  have pos: "\<exists>n m. get_apartments_stats ToString s =
                   Response 200 (Stats total (VStr (fixed2 n)) (VStr (fixed2 m))) \<and>
                 \<bar>of_nat n / 100 - 100 * of_nat (total - unavailable) / of_nat total\<bar>
                   \<le> (1 / 200 + 1 / 2 ^ 45 :: rat) \<and>
                 \<bar>of_nat m / 100 - 100 * of_nat unavailable / of_nat total\<bar>
                   \<le> (1 / 200 + 1 / 2 ^ 45 :: rat)"
    if t: "0 < total"
  proof -
    from percentage_fixed2 [of "total - unavailable" total] t
    obtain n where n: "toFixed2 (js_mul (js_div (of_nat (total - unavailable)) (of_nat total)) 100) =
          fixed2 n"
        "\<bar>of_nat n / 100 - 100 * of_nat (total - unavailable) / of_nat total\<bar>
           \<le> (1 / 200 + 1 / 2 ^ 45 :: rat)"
      by auto
    from percentage_fixed2 [OF le t]
    obtain m where m: "toFixed2 (js_mul (js_div (of_nat unavailable) (of_nat total)) 100) = fixed2 m"
        "\<bar>of_nat m / 100 - 100 * of_nat unavailable / of_nat total\<bar>
           \<le> (1 / 200 + 1 / 2 ^ 45 :: rat)"
      by auto
    from t have ne: "apartmentsCollection s \<noteq> []" by (auto simp: total_def)
    have "get_apartments_stats ToString s =
            Response 200 (Stats total (VStr (fixed2 n)) (VStr (fixed2 m)))"
      unfolding get_apartments_stats_counts
      using ne n(1) m(1) by (simp add: total_def unavailable_def)
    with n(2) m(2) show ?thesis by blast
  qed
  show ?thesis
    unfolding Let_def using zero pos by (simp add: total_def unavailable_def)
qed

theorem get_apartments_stats_percentages_witness:
  "get_apartments_stats to_string db_pending = Response 200 (Stats 0 (VNum 0) (VNum 0)) \<and>
   (\<exists>n m. get_apartments_stats to_string db_stats =
            Response 200 (Stats 160 (VStr (fixed2 n)) (VStr (fixed2 m))) \<and>
          \<bar>of_nat n / 100 - 100 * 137 / 160\<bar> \<le> (1 / 200 + 1 / 2 ^ 45 :: rat) \<and>
          \<bar>of_nat m / 100 - 100 * 23 / 160\<bar> \<le> (1 / 200 + 1 / 2 ^ 45 :: rat))"
proof -
  have 0: "length (apartmentsCollection db_pending) = 0"
    by (simp add: db_pending_def)
  have A: "get_apartments_stats to_string db_pending = Response 200 (Stats 0 (VNum 0) (VNum 0))"
    using get_apartments_stats_percentages [of db_pending to_string, unfolded Let_def] 0
    by blast
  have B: "\<exists>n m. get_apartments_stats to_string db_stats =
            Response 200 (Stats 160 (VStr (fixed2 n)) (VStr (fixed2 m))) \<and>
          \<bar>of_nat n / 100 - 100 * 137 / 160\<bar> \<le> (1 / 200 + 1 / 2 ^ 45 :: rat) \<and>
          \<bar>of_nat m / 100 - 100 * 23 / 160\<bar> \<le> (1 / 200 + 1 / 2 ^ 45 :: rat)"
    using get_apartments_stats_percentages [of db_stats to_string, unfolded Let_def]
    unfolding db_stats_unavailable db_stats_total by simp
  from A B show ?thesis ..
qed

text \<open>
  With 23 of 160 apartments let, the exact percentage is 14.375, which \<open>toFixed(2)\<close>
  itself would write as 14.38; the double product lies just below it and the handler
  reports 14.37.
\<close>

theorem stats_tie_counterexample:
  "get_apartments_stats to_string db_stats =
     Response 200 (Stats 160 (VStr ''85.63'') (VStr ''14.37'')) \<and>
   23 / 160 * 100 = (14375 / 1000 :: rat) \<and>
   toFixed2 (23 / 160 * 100) = ''14.38''"
proof -
  have ne: "apartmentsCollection db_stats \<noteq> []"
    using db_stats_total by auto
  have 1: "get_apartments_stats to_string db_stats =
     Response 200 (Stats 160 (VStr ''85.63'') (VStr ''14.37''))"
    unfolding get_apartments_stats_counts db_stats_unavailable db_stats_total
    using ne by (simp add: toFixed2_23_160 toFixed2_137_160)
  have 2: "23 / 160 * 100 = (14375 / 1000 :: rat)" by simp
  from 1 2 toFixed2_exact show ?thesis by (intro conjI)
qed

section \<open>Creating an agreement\<close>

lemma post_agreements_insert:
  assumes nodup: "\<forall>a \<in> set (agreementsCollection s).
             eq_match a ''email'' (agreementData ''email'') \<longrightarrow>
             a ''status'' \<noteq> Some (VStr ''pending'') \<and> a ''status'' \<noteq> Some (VStr ''checked'')"
      and noocc: "\<forall>a \<in> set (agreementsCollection s).
             eq_match a ''blockName'' (agreementData ''blockName'') \<and>
             eq_match a ''apartmentNo'' (agreementData ''apartmentNo'') \<and>
             a ''status'' = Some (VStr ''checked'') \<longrightarrow>
             (\<forall>u \<in> set (usersCollection s).
                eq_match u ''email'' (a ''email'') \<longrightarrow> u ''role'' \<noteq> Some (VStr ''member''))"
      and noid: "agreementData ''_id'' = None"
      and fresh: "\<forall>a \<in> set (agreementsCollection s). a ''_id'' \<noteq> Some (VOid generated)"
  shows "post_agreements s (Some agreementData) generated =
           (s\<lparr>agreementsCollection :=
                agreementsCollection s @ [agreementData(''_id'' \<mapsto> VOid generated)]\<rparr>,
            Response 200 (InsertOneResult (VOid generated)))"
proof -
  let ?dup = "\<lambda>a. eq_match a ''email'' (agreementData ''email'') \<and>
                    in_match a ''status'' [Some (VStr ''pending''), Some (VStr ''checked'')]"
  let ?apt = "\<lambda>a. eq_match a ''blockName'' (agreementData ''blockName'') \<and>
                    eq_match a ''apartmentNo'' (agreementData ''apartmentNo'') \<and>
                    eq_match a ''status'' (Some (VStr ''checked''))"
  let ?emails = "map (\<lambda>ag. ag ''email'') (find_toArray ?apt (agreementsCollection s))"
  let ?mem = "\<lambda>u. in_match u ''email'' ?emails \<and> eq_match u ''role'' (Some (VStr ''member''))"
  have 1: "findOne ?dup (agreementsCollection s) = None"
    using nodup by (auto simp: findOne_def find_None_iff in_match_def eq_match_str)
  have 2: "findOne ?mem (usersCollection s) = None"
    using noocc
    by (auto simp: findOne_def find_None_iff in_match_def find_toArray_def eq_match_str
          list_ex_iff)
  have 3: "insertOne agreementData generated (agreementsCollection s) =
             Inr (agreementsCollection s @ [agreementData(''_id'' \<mapsto> VOid generated)], VOid generated)"
    using noid fresh
    by (auto simp: insertOne_def Let_def bson_def list_ex_iff eq_match_oid [unfolded eq_match_def bson_def]
          split: option.splits)
  show ?thesis
    by (simp add: post_agreements_def 1 2 3 Let_def)
qed

lemma post_agreements_occupied:
  assumes nodup: "\<forall>a \<in> set (agreementsCollection s).
             eq_match a ''email'' (agreementData ''email'') \<longrightarrow>
             a ''status'' \<noteq> Some (VStr ''pending'') \<and> a ''status'' \<noteq> Some (VStr ''checked'')"
      and a: "a \<in> set (agreementsCollection s)"
             "eq_match a ''blockName'' (agreementData ''blockName'')"
             "eq_match a ''apartmentNo'' (agreementData ''apartmentNo'')"
             "a ''status'' = Some (VStr ''checked'')"
      and u: "u \<in> set (usersCollection s)" "eq_match u ''email'' (a ''email'')"
             "u ''role'' = Some (VStr ''member'')"
  shows "post_agreements s (Some agreementData) generated =
           (s, Response 400 (Message ''This apartment is already assigned to a member.''))"
proof -
  let ?dup = "\<lambda>a. eq_match a ''email'' (agreementData ''email'') \<and>
                    in_match a ''status'' [Some (VStr ''pending''), Some (VStr ''checked'')]"
  let ?apt = "\<lambda>a. eq_match a ''blockName'' (agreementData ''blockName'') \<and>
                    eq_match a ''apartmentNo'' (agreementData ''apartmentNo'') \<and>
                    eq_match a ''status'' (Some (VStr ''checked''))"
  let ?checked = "find_toArray ?apt (agreementsCollection s)"
  let ?emails = "map (\<lambda>ag. ag ''email'') ?checked"
  let ?mem = "\<lambda>u. in_match u ''email'' ?emails \<and> eq_match u ''role'' (Some (VStr ''member''))"
  have 1: "findOne ?dup (agreementsCollection s) = None"
    using nodup by (auto simp: findOne_def find_None_iff in_match_def eq_match_str)
  have mem: "a \<in> set ?checked"
    using a by (simp add: find_toArray_def eq_match_str)
  then have 2: "0 < length ?checked" by (cases ?checked) auto
  have "?mem u"
    using mem u(2,3) by (auto simp: in_match_def list_ex_iff eq_match_str)
  with u(1) have 3: "findOne ?mem (usersCollection s) \<noteq> None"
    by (auto simp: findOne_def find_None_iff)
  show ?thesis
    using 2 3 by (simp add: post_agreements_def 1 Let_def)
qed

text \<open>
  C4. If the agreement collection holds an agreement whose email is the email of the
  submitted agreement and whose status is \<open>pending\<close> or \<open>checked\<close>, the handler answers
  400 with the duplicate-agreement message and leaves the state as it was: nothing is
  inserted.
\<close>

theorem post_agreements_duplicate:
  assumes "a \<in> set (agreementsCollection s)"
      and "a ''email'' = agreementData ''email''"
      and "a ''status'' = Some (VStr ''pending'') \<or> a ''status'' = Some (VStr ''checked'')"
  shows "post_agreements s (Some agreementData) generated =
           (s, Response 400
                 (Message ''User already has an existing agreement (pending or approved).''))"
proof -
  let ?q = "\<lambda>a. eq_match a ''email'' (agreementData ''email'') \<and>
                  in_match a ''status'' [Some (VStr ''pending''), Some (VStr ''checked'')]"
  have "?q a" using assms(2,3) by (auto simp: eq_match_def in_match_def)
  with assms(1) have "findOne ?q (agreementsCollection s) \<noteq> None"
    by (auto simp: findOne_def find_None_iff)
  then show ?thesis by (auto simp: post_agreements_def)
qed

theorem post_agreements_duplicate_witness:
  "agreement_b \<in> set (agreementsCollection db_occupied) \<and>
   agreement_b ''email'' = body_b_101 ''email'' \<and>
   agreement_b ''status'' = Some (VStr ''pending'') \<and>
   post_agreements db_occupied (Some body_b_101) oid_1 =
     (db_occupied, Response 400
        (Message ''User already has an existing agreement (pending or approved).''))"
proof -
  have 1: "agreement_b \<in> set (agreementsCollection db_occupied)"
    by (simp add: db_occupied_def)
  have 2: "agreement_b ''email'' = body_b_101 ''email''"
    by (simp add: agreement_b_def body_b_101_def)
  have 3: "agreement_b ''status'' = Some (VStr ''pending'')"
    by (simp add: agreement_b_def)
  from 3 have 4: "agreement_b ''status'' = Some (VStr ''pending'') \<or>
                  agreement_b ''status'' = Some (VStr ''checked'')" ..
  show ?thesis
    using 1 2 3
      post_agreements_duplicate [where a = agreement_b and s = db_occupied
        and agreementData = body_b_101 and generated = oid_1, OF 1 2 4]
    by simp
qed

text \<open>
  C3, as the code has it. The occupancy check runs after the duplicate check, so let
  the submitter have no \<open>pending\<close> or \<open>checked\<close> agreement. Then: if some \<open>checked\<close>
  agreement for the target apartment has an owner with a user record of role \<open>member\<close>,
  the handler answers 400 with the apartment-assigned message and inserts nothing; if
  no \<open>checked\<close> agreement for that apartment has such an owner, and the body carries no
  \<open>_id\<close> of its own and the generated id is not in use, the body is inserted and the
  handler answers with the insert result.
\<close>

theorem post_agreements_occupancy:
  assumes "\<forall>a \<in> set (agreementsCollection s).
             eq_match a ''email'' (agreementData ''email'') \<longrightarrow>
             a ''status'' \<noteq> Some (VStr ''pending'') \<and> a ''status'' \<noteq> Some (VStr ''checked'')"
  shows "((\<exists>a \<in> set (agreementsCollection s).
             eq_match a ''blockName'' (agreementData ''blockName'') \<and>
             eq_match a ''apartmentNo'' (agreementData ''apartmentNo'') \<and>
             a ''status'' = Some (VStr ''checked'') \<and>
             (\<exists>u \<in> set (usersCollection s).
                eq_match u ''email'' (a ''email'') \<and> u ''role'' = Some (VStr ''member''))) \<longrightarrow>
          post_agreements s (Some agreementData) generated =
            (s, Response 400 (Message ''This apartment is already assigned to a member.''))) \<and>
         ((\<forall>a \<in> set (agreementsCollection s).
             eq_match a ''blockName'' (agreementData ''blockName'') \<and>
             eq_match a ''apartmentNo'' (agreementData ''apartmentNo'') \<and>
             a ''status'' = Some (VStr ''checked'') \<longrightarrow>
             (\<forall>u \<in> set (usersCollection s).
                eq_match u ''email'' (a ''email'') \<longrightarrow> u ''role'' \<noteq> Some (VStr ''member''))) \<and>
          agreementData ''_id'' = None \<and>
          (\<forall>a \<in> set (agreementsCollection s). a ''_id'' \<noteq> Some (VOid generated)) \<longrightarrow>
          post_agreements s (Some agreementData) generated =
            (s\<lparr>agreementsCollection :=
                 agreementsCollection s @ [agreementData(''_id'' \<mapsto> VOid generated)]\<rparr>,
             Response 200 (InsertOneResult (VOid generated))))"
proof (intro conjI impI)
  assume "\<exists>a \<in> set (agreementsCollection s).
             eq_match a ''blockName'' (agreementData ''blockName'') \<and>
             eq_match a ''apartmentNo'' (agreementData ''apartmentNo'') \<and>
             a ''status'' = Some (VStr ''checked'') \<and>
             (\<exists>u \<in> set (usersCollection s).
                eq_match u ''email'' (a ''email'') \<and> u ''role'' = Some (VStr ''member''))"
  then obtain a u where "a \<in> set (agreementsCollection s)"
      "eq_match a ''blockName'' (agreementData ''blockName'')"
      "eq_match a ''apartmentNo'' (agreementData ''apartmentNo'')"
      "a ''status'' = Some (VStr ''checked'')"
      "u \<in> set (usersCollection s)" "eq_match u ''email'' (a ''email'')"
      "u ''role'' = Some (VStr ''member'')"
    by blast
  then show "post_agreements s (Some agreementData) generated =
            (s, Response 400 (Message ''This apartment is already assigned to a member.''))"
    by (rule post_agreements_occupied [where s = s and agreementData = agreementData, OF assms])
next
  assume "(\<forall>a \<in> set (agreementsCollection s).
             eq_match a ''blockName'' (agreementData ''blockName'') \<and>
             eq_match a ''apartmentNo'' (agreementData ''apartmentNo'') \<and>
             a ''status'' = Some (VStr ''checked'') \<longrightarrow>
             (\<forall>u \<in> set (usersCollection s).
                eq_match u ''email'' (a ''email'') \<longrightarrow> u ''role'' \<noteq> Some (VStr ''member''))) \<and>
          agreementData ''_id'' = None \<and>
          (\<forall>a \<in> set (agreementsCollection s). a ''_id'' \<noteq> Some (VOid generated))"
  then show "post_agreements s (Some agreementData) generated =
            (s\<lparr>agreementsCollection :=
                 agreementsCollection s @ [agreementData(''_id'' \<mapsto> VOid generated)]\<rparr>,
             Response 200 (InsertOneResult (VOid generated)))"
    using post_agreements_insert [where s = s and agreementData = agreementData, OF assms] by blast
qed

theorem post_agreements_occupancy_witness:
  "post_agreements db_occupied (Some body_c_101) oid_1 =
     (db_occupied, Response 400 (Message ''This apartment is already assigned to a member.'')) \<and>
   post_agreements db_drifted (Some body_b_101) oid_2 =
     (db_drifted\<lparr>agreementsCollection :=
        agreementsCollection db_drifted @ [body_b_101(''_id'' \<mapsto> VOid oid_2)]\<rparr>,
      Response 200 (InsertOneResult (VOid oid_2)))"
proof -
  have 1: "\<forall>a \<in> set (agreementsCollection db_occupied).
             eq_match a ''email'' (body_c_101 ''email'') \<longrightarrow>
             a ''status'' \<noteq> Some (VStr ''pending'') \<and> a ''status'' \<noteq> Some (VStr ''checked'')"
    by (simp add: db_occupied_def agreement_a_def agreement_b_def body_c_101_def eq_match_def bson_def)
  have 2: "\<forall>a \<in> set (agreementsCollection db_drifted).
             eq_match a ''email'' (body_b_101 ''email'') \<longrightarrow>
             a ''status'' \<noteq> Some (VStr ''pending'') \<and> a ''status'' \<noteq> Some (VStr ''checked'')"
    by (simp add: db_drifted_def agreement_a_def body_b_101_def eq_match_def bson_def)
  show ?thesis
    using post_agreements_occupancy [where s = db_occupied and agreementData = body_c_101
            and generated = oid_1, OF 1]
          post_agreements_occupancy [where s = db_drifted and agreementData = body_b_101
            and generated = oid_2, OF 2]
    by (simp add: db_occupied_def db_drifted_def agreement_a_def agreement_b_def user_a_def
          user_b_def user_root_def body_c_101_def body_b_101_def eq_match_def bson_def
          oid_1_def oid_2_def)
qed

text \<open>
  A submitter who already has a pending agreement and targets an apartment held by a
  member is answered with the duplicate-agreement message, not the apartment-assigned
  one.
\<close>

theorem occupied_but_duplicate_counterexample:
  "(agreementsCollection db_occupied ! 0) ''blockName'' = body_b_101 ''blockName'' \<and>
   (agreementsCollection db_occupied ! 0) ''apartmentNo'' = body_b_101 ''apartmentNo'' \<and>
   (agreementsCollection db_occupied ! 0) ''status'' = Some (VStr ''checked'') \<and>
   (usersCollection db_occupied ! 0) ''email'' = (agreementsCollection db_occupied ! 0) ''email'' \<and>
   (usersCollection db_occupied ! 0) ''role'' = Some (VStr ''member'') \<and>
   post_agreements db_occupied (Some body_b_101) oid_1 =
     (db_occupied, Response 400
        (Message ''User already has an existing agreement (pending or approved).''))"
  by (simp add: post_agreements_def insertOne_def Let_def db_occupied_def agreement_a_def
        agreement_b_def user_a_def body_b_101_def eq_match_def in_match_def bson_def
        findOne_def find_toArray_def)

text \<open>
  C1, as the code has it. A request that passes both conflict checks (with no \<open>_id\<close>
  of its own in the body and a generated id that is not in use) is stored as the body
  itself with the generated \<open>_id\<close> added: the status of the stored agreement is the
  status the caller supplied, whatever it is.
\<close>

theorem post_agreements_status_as_supplied:
  assumes "\<forall>a \<in> set (agreementsCollection s).
             eq_match a ''email'' (agreementData ''email'') \<longrightarrow>
             a ''status'' \<noteq> Some (VStr ''pending'') \<and> a ''status'' \<noteq> Some (VStr ''checked'')"
      and "\<forall>a \<in> set (agreementsCollection s).
             eq_match a ''blockName'' (agreementData ''blockName'') \<and>
             eq_match a ''apartmentNo'' (agreementData ''apartmentNo'') \<and>
             a ''status'' = Some (VStr ''checked'') \<longrightarrow>
             (\<forall>u \<in> set (usersCollection s).
                eq_match u ''email'' (a ''email'') \<longrightarrow> u ''role'' \<noteq> Some (VStr ''member''))"
      and "agreementData ''_id'' = None"
      and "\<forall>a \<in> set (agreementsCollection s). a ''_id'' \<noteq> Some (VOid generated)"
  shows "agreementsCollection (fst (post_agreements s (Some agreementData) generated)) =
           agreementsCollection s @ [agreementData(''_id'' \<mapsto> VOid generated)] \<and>
         last (agreementsCollection (fst (post_agreements s (Some agreementData) generated))) ''status'' =
           agreementData ''status''"
  by (simp add: post_agreements_insert [where s = s and agreementData = agreementData, OF assms])

theorem post_agreements_status_as_supplied_witness:
  "agreementsCollection (fst (post_agreements db_pending (Some body_b_self_approved) oid_2)) =
     agreementsCollection db_pending @ [body_b_self_approved(''_id'' \<mapsto> VOid oid_2)] \<and>
   last (agreementsCollection (fst (post_agreements db_pending (Some body_b_self_approved) oid_2))) ''status'' =
     Some (VStr ''checked'')"
proof -
  have 1: "\<forall>a \<in> set (agreementsCollection db_pending).
             eq_match a ''email'' (body_b_self_approved ''email'') \<longrightarrow>
             a ''status'' \<noteq> Some (VStr ''pending'') \<and> a ''status'' \<noteq> Some (VStr ''checked'')"
    by (simp add: db_pending_def agreement_a_def body_b_self_approved_def eq_match_def bson_def)
  have 2: "\<forall>a \<in> set (agreementsCollection db_pending).
             eq_match a ''blockName'' (body_b_self_approved ''blockName'') \<and>
             eq_match a ''apartmentNo'' (body_b_self_approved ''apartmentNo'') \<and>
             a ''status'' = Some (VStr ''checked'') \<longrightarrow>
             (\<forall>u \<in> set (usersCollection db_pending).
                eq_match u ''email'' (a ''email'') \<longrightarrow> u ''role'' \<noteq> Some (VStr ''member''))"
    by (simp add: db_pending_def agreement_a_def body_b_self_approved_def eq_match_def bson_def)
  have 3: "body_b_self_approved ''_id'' = None"
    by (simp add: body_b_self_approved_def)
  have 4: "\<forall>a \<in> set (agreementsCollection db_pending). a ''_id'' \<noteq> Some (VOid oid_2)"
    by (simp add: db_pending_def agreement_a_def oid_1_def oid_2_def)
  have 5: "body_b_self_approved ''status'' = Some (VStr ''checked'')"
    by (simp add: body_b_self_approved_def)
  show ?thesis
    using post_agreements_status_as_supplied [OF 1 2 3 4, unfolded 5] .
qed

text \<open>
  A body that carries status \<open>checked\<close> passes both checks and is stored with status
  \<open>checked\<close>.
\<close>

theorem self_approved_counterexample:
  "snd (post_agreements db_pending (Some body_b_self_approved) oid_2) =
     Response 200 (InsertOneResult (VOid oid_2)) \<and>
   (agreementsCollection (fst (post_agreements db_pending (Some body_b_self_approved) oid_2)) ! 1) ''status'' =
     Some (VStr ''checked'')"
  by (simp add: post_agreements_def insertOne_def Let_def db_pending_def agreement_a_def
        body_b_self_approved_def oid_1_def oid_2_def eq_match_def in_match_def bson_def
        findOne_def find_toArray_def)

section \<open>Deciding an agreement\<close>

lemma patch_agreements_matched:
  assumes valid: "ObjectId params_id = Some oid"
      and found: "findOne (\<lambda>a. a ''_id'' = Some (VOid oid)) (agreementsCollection s) = Some a"
  shows "findOne (\<lambda>a. a ''_id'' = Some (VOid oid))
           (agreementsCollection (fst (patch_agreements ObjectId s params_id (Some body) now))) =
         Some (if body ''role'' = Some (VStr ''member'')
               then a(''status'' \<mapsto> js_or (body ''status'') (VStr ''checked''),
                      ''acceptedDate'' \<mapsto> VDate now)
               else a(''status'' \<mapsto> js_or (body ''status'') (VStr ''checked'')))"
    and "usersCollection (fst (patch_agreements ObjectId s params_id (Some body) now)) =
         (if body ''role'' = Some (VStr ''member'') \<and> truthy (a ''email'')
          then updateOne (\<lambda>u. eq_match u ''email'' (a ''email''))
                 [''role'' \<mapsto> VStr ''member''] (usersCollection s)
          else usersCollection s)"
proof -
  let ?q = "\<lambda>a. a ''_id'' = Some (VOid oid)"
  have a_id: "a ''_id'' = Some (VOid oid)"
    using found by (auto simp: findOne_def find_Some_iff)
  have upd: "findOne ?q (updateOne ?q u (agreementsCollection s)) = Some (a ++ u)"
    if "u ''_id'' = None" for u
    using found by (rule findOne_updateOne) (simp add: map_add_def that a_id)
  have m1: "a ++ [''status'' \<mapsto> x] = a(''status'' \<mapsto> x)" for x
    by simp
  have m2: "a ++ [''status'' \<mapsto> x, ''acceptedDate'' \<mapsto> y] = a(''status'' \<mapsto> x, ''acceptedDate'' \<mapsto> y)" for x y
    by (rule ext) (simp add: map_add_def)
  show "findOne (\<lambda>a. a ''_id'' = Some (VOid oid))
           (agreementsCollection (fst (patch_agreements ObjectId s params_id (Some body) now))) =
         Some (if body ''role'' = Some (VStr ''member'')
               then a(''status'' \<mapsto> js_or (body ''status'') (VStr ''checked''),
                      ''acceptedDate'' \<mapsto> VDate now)
               else a(''status'' \<mapsto> js_or (body ''status'') (VStr ''checked'')))"
    by (simp add: patch_agreements_def valid Let_def by_id_eq upd m1 m2 del: map_add_upd map_add_empty)
  show "usersCollection (fst (patch_agreements ObjectId s params_id (Some body) now)) =
         (if body ''role'' = Some (VStr ''member'') \<and> truthy (a ''email'')
          then updateOne (\<lambda>u. eq_match u ''email'' (a ''email''))
                 [''role'' \<mapsto> VStr ''member''] (usersCollection s)
          else usersCollection s)"
    by (simp add: patch_agreements_def valid Let_def by_id_eq upd m2 del: map_add_upd map_add_empty)
qed

lemma patch_agreements_no_body:
  "ObjectId params_id = Some oid \<Longrightarrow>
   patch_agreements ObjectId s params_id None now =
     (s, Response 500 (Message ''Internal Server Error''))"
  by (simp add: patch_agreements_def)

text \<open>
  C9, as the code has it. When the id is well formed and no stored agreement has it,
  the state is as it was: neither collection is modified. The handler answers with the
  confirmation \<open>Agreement updated successfully\<close> when the request has a body, and with
  500 \<open>Internal Server Error\<close> when it has none (destructuring \<open>req.body\<close> throws).
\<close>

theorem patch_agreements_no_match:
  assumes "ObjectId params_id = Some oid"
      and "\<forall>a \<in> set (agreementsCollection s). a ''_id'' \<noteq> Some (VOid oid)"
  shows "patch_agreements ObjectId s params_id req_body now =
           (s, case req_body of
                 None \<Rightarrow> Response 500 (Message ''Internal Server Error'')
               | Some body \<Rightarrow> Response 200 (Message ''Agreement updated successfully''))"
proof (cases req_body)
  case None
  then show ?thesis using assms(1) by (simp add: patch_agreements_no_body)
next
  case (Some body)
  let ?q = "\<lambda>a. eq_match a ''_id'' (Some (VOid oid))"
  have none: "findOne ?q (agreementsCollection s) = None"
    using assms(2) by (simp add: findOne_def find_None_iff eq_match_oid)
  then have same: "updateOne ?q upd (agreementsCollection s) = agreementsCollection s" for upd
    by (rule updateOne_no_match)
  show ?thesis
    using assms(1) none by (simp add: Some patch_agreements_def Let_def same)
qed

theorem patch_agreements_no_match_witness:
  "hexObjectId ''000000000000000000000002'' = Some oid_2 \<and>
   agreementsCollection db_pending = [agreement_a] \<and>
   agreement_a ''_id'' \<noteq> Some (VOid oid_2) \<and>
   patch_agreements hexObjectId db_pending ''000000000000000000000002''
       (Some body_reject_member) 7 =
     (db_pending, Response 200 (Message ''Agreement updated successfully''))"
proof -
  have 1: "\<forall>a \<in> set (agreementsCollection db_pending). a ''_id'' \<noteq> Some (VOid oid_2)"
    by (simp add: db_pending_def agreement_a_def oid_1_def oid_2_def)
  have 2: "agreementsCollection db_pending = [agreement_a]"
    by (simp add: db_pending_def)
  have 3: "agreement_a ''_id'' \<noteq> Some (VOid oid_2)"
    by (simp add: agreement_a_def oid_1_def oid_2_def)
  have 4: "patch_agreements hexObjectId db_pending ''000000000000000000000002''
       (Some body_reject_member) 7 =
     (db_pending, Response 200 (Message ''Agreement updated successfully''))"
    using patch_agreements_no_match [where ObjectId = hexObjectId and s = db_pending
        and req_body = "Some body_reject_member" and now = 7, OF hex2 1]
    by simp
  from hex2 2 3 4 show ?thesis by (intro conjI)
qed

text \<open>
  A decide call without a body, on a well-formed id that matches nothing, is answered
  500 and not with the confirmation.
\<close>

theorem no_body_no_match_counterexample:
  "hexObjectId ''000000000000000000000002'' = Some oid_2 \<and>
   agreementsCollection db_pending = [agreement_a] \<and>
   agreement_a ''_id'' \<noteq> Some (VOid oid_2) \<and>
   patch_agreements hexObjectId db_pending ''000000000000000000000002'' None 7 =
     (db_pending, Response 500 (Message ''Internal Server Error''))"
  by (simp add: patch_agreements_def hex2 db_pending_def agreement_a_def oid_1_def oid_2_def)

text \<open>
  C10. When the role supplied by the request is not \<open>member\<close> (a request without a body
  supplies none), the user collection is unchanged, no agreement is added or removed,
  and every field of every agreement other than \<open>status\<close> (so \<open>acceptedDate\<close> too) reads
  as before.
\<close>

theorem patch_agreements_role_not_member:
  assumes "Option.bind req_body (\<lambda>body. body ''role'') \<noteq> Some (VStr ''member'')"
  shows "usersCollection (fst (patch_agreements ObjectId s params_id req_body now)) = usersCollection s \<and>
         length (agreementsCollection (fst (patch_agreements ObjectId s params_id req_body now))) =
           length (agreementsCollection s) \<and>
         (\<forall>i < length (agreementsCollection s). \<forall>k. k \<noteq> ''status'' \<longrightarrow>
             (agreementsCollection (fst (patch_agreements ObjectId s params_id req_body now)) ! i) k =
             (agreementsCollection s ! i) k)"
proof (cases "ObjectId params_id")
  case None
  then show ?thesis by (simp add: patch_agreements_def)
next
  case valid: (Some oid)
  show ?thesis
  proof (cases req_body)
    case None
    then show ?thesis using valid by (simp add: patch_agreements_no_body)
  next
    case (Some body)
    let ?q = "\<lambda>a. eq_match a ''_id'' (Some (VOid oid))"
    let ?upd = "[''status'' \<mapsto> js_or (body ''status'') (VStr ''checked'')]"
    from assms Some valid have s': "fst (patch_agreements ObjectId s params_id req_body now) =
        s\<lparr>agreementsCollection := updateOne ?q ?upd (agreementsCollection s)\<rparr>"
      by (simp add: patch_agreements_def Let_def)
    have "(updateOne ?q ?upd (agreementsCollection s) ! i) k = (agreementsCollection s ! i) k"
      if "i < length (agreementsCollection s)" "k \<noteq> ''status''" for i k
      using updateOne_nth[OF that(1), of ?q ?upd] that(2) by (auto simp: map_add_def)
    then show ?thesis by (simp add: s' updateOne_length)
  qed
qed

theorem patch_agreements_role_not_member_witness:
  "body_reject ''role'' \<noteq> Some (VStr ''member'') \<and>
   usersCollection (fst (patch_agreements hexObjectId db_pending
       ''000000000000000000000001'' (Some body_reject) 7)) = usersCollection db_pending \<and>
   (agreementsCollection (fst (patch_agreements hexObjectId db_pending
       ''000000000000000000000001'' (Some body_reject) 7)) ! 0) ''acceptedDate'' =
     (agreementsCollection db_pending ! 0) ''acceptedDate''"
proof -
  have 1: "body_reject ''role'' \<noteq> Some (VStr ''member'')"
    by (simp add: body_reject_def)
  then have r: "Option.bind (Some body_reject) (\<lambda>body. body ''role'') \<noteq> Some (VStr ''member'')"
    by simp
  have 2: "0 < length (agreementsCollection db_pending)"
    by (simp add: db_pending_def)
  have 3: "''acceptedDate'' \<noteq> ''status''" by simp
  note t = patch_agreements_role_not_member [where req_body = "Some body_reject" and s = db_pending
        and ObjectId = hexObjectId and params_id = "''000000000000000000000001''" and now = 7, OF r]
  from t have users: "usersCollection (fst (patch_agreements hexObjectId db_pending
       ''000000000000000000000001'' (Some body_reject) 7)) = usersCollection db_pending"
    by (rule conjunct1)
  from t have "\<forall>i < length (agreementsCollection db_pending). \<forall>k. k \<noteq> ''status'' \<longrightarrow>
             (agreementsCollection (fst (patch_agreements hexObjectId db_pending
                ''000000000000000000000001'' (Some body_reject) 7)) ! i) k =
             (agreementsCollection db_pending ! i) k"
    by (elim conjE)
  from this [rule_format, OF 2 3] 1 users show ?thesis
    by (intro conjI)
qed

text \<open>
  C7, as the code has it. Let the id be well formed and an agreement have it. When the
  request has a body, the stored status becomes the status of the body if that value
  is truthy, and \<open>checked\<close> if the body has no status or a falsy one (null, false, 0 or
  the empty string). When the request has no body at all, the handler answers 500
  \<open>Internal Server Error\<close> and the agreement is left as it was.
\<close>

theorem patch_agreements_status:
  assumes "ObjectId params_id = Some oid"
      and "findOne (\<lambda>a. a ''_id'' = Some (VOid oid)) (agreementsCollection s) = Some a"
  shows "\<exists>a'. findOne (\<lambda>a. a ''_id'' = Some (VOid oid))
                (agreementsCollection (fst (patch_agreements ObjectId s params_id req_body now))) =
                Some a' \<and>
              (case req_body of
                 None \<Rightarrow>
                   a' = a \<and>
                   snd (patch_agreements ObjectId s params_id req_body now) =
                     Response 500 (Message ''Internal Server Error'')
               | Some body \<Rightarrow>
                   (truthy (body ''status'') \<longrightarrow> a' ''status'' = body ''status'') \<and>
                   (\<not> truthy (body ''status'') \<longrightarrow> a' ''status'' = Some (VStr ''checked'')))"
proof (cases req_body)
  case None
  then show ?thesis
    using assms by (simp add: patch_agreements_no_body)
next
  case (Some body)
  show ?thesis
    using patch_agreements_matched(1)
            [where ObjectId = ObjectId and body = body and now = now, OF assms]
    by (cases "body ''status''") (auto simp: Some js_or_def)
qed

theorem patch_agreements_status_witness:
  "(\<exists>a'. findOne (\<lambda>a. a ''_id'' = Some (VOid oid_1))
            (agreementsCollection (fst (patch_agreements hexObjectId db_pending
               ''000000000000000000000001'' (Some body_reject) 7))) = Some a' \<and>
          a' ''status'' = Some (VStr ''rejected'')) \<and>
   (\<exists>a'. findOne (\<lambda>a. a ''_id'' = Some (VOid oid_1))
            (agreementsCollection (fst (patch_agreements hexObjectId db_pending
               ''000000000000000000000001'' (Some Map.empty) 7))) = Some a' \<and>
          a' ''status'' = Some (VStr ''checked'')) \<and>
   findOne (\<lambda>a. a ''_id'' = Some (VOid oid_1))
     (agreementsCollection (fst (patch_agreements hexObjectId db_pending
        ''000000000000000000000001'' None 7))) = Some agreement_a \<and>
   snd (patch_agreements hexObjectId db_pending ''000000000000000000000001'' None 7) =
     Response 500 (Message ''Internal Server Error'')"
proof -
  have 1: "truthy (body_reject ''status'')" "body_reject ''status'' = Some (VStr ''rejected'')"
    by (simp_all add: body_reject_def)
  have 2: "\<not> truthy ((Map.empty :: doc) ''status'')"
    by simp
  from patch_agreements_status [where ObjectId = hexObjectId and s = db_pending
        and req_body = "Some body_reject" and now = 7, OF hex1 find_a, unfolded option.case]
  obtain a' where "findOne (\<lambda>a. a ''_id'' = Some (VOid oid_1))
            (agreementsCollection (fst (patch_agreements hexObjectId db_pending
               ''000000000000000000000001'' (Some body_reject) 7))) = Some a'"
      and "truthy (body_reject ''status'') \<longrightarrow> a' ''status'' = body_reject ''status''"
    by (elim exE conjE)
  with 1 have A: "\<exists>a'. findOne (\<lambda>a. a ''_id'' = Some (VOid oid_1))
            (agreementsCollection (fst (patch_agreements hexObjectId db_pending
               ''000000000000000000000001'' (Some body_reject) 7))) = Some a' \<and>
          a' ''status'' = Some (VStr ''rejected'')"
    by simp
  from patch_agreements_status [where ObjectId = hexObjectId and s = db_pending
        and req_body = "Some Map.empty" and now = 7, OF hex1 find_a, unfolded option.case]
  obtain a'' where "findOne (\<lambda>a. a ''_id'' = Some (VOid oid_1))
            (agreementsCollection (fst (patch_agreements hexObjectId db_pending
               ''000000000000000000000001'' (Some Map.empty) 7))) = Some a''"
      and "\<not> truthy ((Map.empty :: doc) ''status'') \<longrightarrow> a'' ''status'' = Some (VStr ''checked'')"
    by (elim exE conjE)
  with 2 have B: "\<exists>a'. findOne (\<lambda>a. a ''_id'' = Some (VOid oid_1))
            (agreementsCollection (fst (patch_agreements hexObjectId db_pending
               ''000000000000000000000001'' (Some Map.empty) 7))) = Some a' \<and>
          a' ''status'' = Some (VStr ''checked'')"
    by simp
  from patch_agreements_status [where ObjectId = hexObjectId and s = db_pending
        and req_body = None and now = 7, OF hex1 find_a, unfolded option.case]
  obtain a3 where "findOne (\<lambda>a. a ''_id'' = Some (VOid oid_1))
            (agreementsCollection (fst (patch_agreements hexObjectId db_pending
               ''000000000000000000000001'' None 7))) = Some a3"
      and "a3 = agreement_a"
      and C2: "snd (patch_agreements hexObjectId db_pending ''000000000000000000000001'' None 7) =
             Response 500 (Message ''Internal Server Error'')"
    by (elim exE conjE)
  then have C1: "findOne (\<lambda>a. a ''_id'' = Some (VOid oid_1))
            (agreementsCollection (fst (patch_agreements hexObjectId db_pending
               ''000000000000000000000001'' None 7))) = Some agreement_a"
    by simp
  from A B C1 C2 show ?thesis by (intro conjI)
qed

text \<open>
  An empty status string is supplied, and the stored status is \<open>checked\<close>; no body is
  supplied, and the answer is 500 with the status still \<open>pending\<close>.
\<close>

theorem blank_status_counterexample:
  "body_blank_status ''status'' = Some (VStr '''') \<and>
   (agreementsCollection (fst (patch_agreements hexObjectId db_pending
        ''000000000000000000000001'' (Some body_blank_status) 7)) ! 0) ''status'' =
     Some (VStr ''checked'') \<and>
   snd (patch_agreements hexObjectId db_pending ''000000000000000000000001'' None 7) =
     Response 500 (Message ''Internal Server Error'') \<and>
   (agreementsCollection (fst (patch_agreements hexObjectId db_pending
        ''000000000000000000000001'' None 7)) ! 0) ''status'' = Some (VStr ''pending'')"
  by (simp add: patch_agreements_def hex1 Let_def db_pending_def agreement_a_def body_blank_status_def
        eq_match_def bson_def js_or_def findOne_def)




end
